theory Spec2Isabelle
  imports Main
begin

section \<open>Errors, thrown and rejected\<close>

text \<open>
  The sources raise four kinds of error objects: \<^verbatim>\<open>ArbSdkError\<close> and \<^verbatim>\<open>ArbTsError\<close> (the
  library's own classes), plain \<^verbatim>\<open>Error\<close>, and the \<^verbatim>\<open>TypeError\<close> of the runtime on a property
  read of \<^verbatim>\<open>undefined\<close> or \<^verbatim>\<open>null\<close>. \<open>External\<close> stands for whatever a call outside the sources
  fails with (a provider, a contract call, an imported helper).
\<close>

datatype error =
    ArbSdkError string
  | ArbTsError string
  | JsError string
  | TypeError string
  | External string

text \<open>
  The outcome of an awaited computation: \<open>Inl e\<close> is a rejection (or a throw inside an
  \<^verbatim>\<open>async\<close> body), \<open>Inr v\<close> the value it resolves to.
\<close>

type_synonym 'a outcome = "error + 'a"

definition bindE :: "'a outcome \<Rightarrow> ('a \<Rightarrow> 'b outcome) \<Rightarrow> 'b outcome" where
  "bindE m f = (case m of Inl e \<Rightarrow> Inl e | Inr v \<Rightarrow> f v)"

text \<open>
  A call expression either throws synchronously or returns a value. A function declared
  \<^verbatim>\<open>async\<close> never throws synchronously: the call returns a promise, and a throw in the body
  is the promise's rejection. \<^verbatim>\<open>await\<close> of a call turns both failures into the failure of
  the awaiting body.
\<close>

datatype 'a completion = Throws error | Returns 'a

definition async :: "'a outcome \<Rightarrow> ('a outcome) completion" where
  "async body = Returns body"

definition await :: "('a outcome) completion \<Rightarrow> 'a outcome" where
  "await c = (case c of Throws e \<Rightarrow> Inl e | Returns p \<Rightarrow> p)"

text \<open>A number inside a template literal: its decimal digits.\<close>

fun string_of_nat :: "nat \<Rightarrow> string" where
  "string_of_nat n =
     (if n < 10 then [''0123456789'' ! n]
      else string_of_nat (n div 10) @ [''0123456789'' ! (n mod 10)])"

declare string_of_nat.simps [simp del]

section \<open>The network registry (networks.ts)\<close>

text \<open>
  The interfaces \<^verbatim>\<open>Network\<close>, \<^verbatim>\<open>L1Network\<close> and \<^verbatim>\<open>L2Network\<close>. The records carry the fields
  of the interfaces except the optional \<^verbatim>\<open>gif\<close>, the literal \<^verbatim>\<open>isArbitrum\<close> (false on every
  \<^verbatim>\<open>L1Network\<close>, true on every \<^verbatim>\<open>L2Network\<close>) and the \<^verbatim>\<open>tokenBridge\<close> address block, which no
  function of the sources reads. \<open>l2_partnerChainIDs\<close> is the optional \<^verbatim>\<open>partnerChainIDs\<close>
  of an \<^verbatim>\<open>L2Network\<close>.
\<close>

record EthBridge =
  bridge :: string
  inbox :: string
  sequencerInbox :: string
  outbox :: string
  rollup :: string
  classicOutboxes :: "(string \<times> nat) list option"

record Network =
  chainID :: nat
  name :: string
  explorerUrl :: string
  isCustom :: bool

record L1Network = Network +
  partnerChainIDs :: "nat list"
  blockTime :: nat

record L2Network = Network +
  l2_partnerChainIDs :: "nat list option"
  ethBridge :: EthBridge
  partnerChainID :: nat
  confirmPeriodBlocks :: nat
  retryableLifetimeSeconds :: nat
  nitroGenesisBlock :: nat
  nitroGenesisL1Block :: nat
  depositTimeout :: nat
  nativeToken :: "string option"

text \<open>
  \<^verbatim>\<open>ParentChain\<close> is the union of \<^verbatim>\<open>L1Network\<close> and \<^verbatim>\<open>L2Network\<close>. At run time a table
  entry is one of these objects or, in \<^verbatim>\<open>parentChains\<close>, the object literal
  \<^verbatim>\<open>{ partnerChainIDs: [...] }\<close> that \<^verbatim>\<open>addCustomChain\<close> stores when it spreads an \<^verbatim>\<open>undefined\<close>
  entry of \<^verbatim>\<open>l2Networks\<close>.
\<close>

datatype ParentChain = PC_L1 L1Network | PC_L2 L2Network

datatype NetworkObj = ObjL1 L1Network | ObjL2 L2Network | ObjPartnerIDsOnly "nat list"

fun pc_chainID :: "ParentChain \<Rightarrow> nat" where
  "pc_chainID (PC_L1 n) = chainID n"
| "pc_chainID (PC_L2 n) = chainID n"

fun pc_isCustom :: "ParentChain \<Rightarrow> bool" where
  "pc_isCustom (PC_L1 n) = isCustom n"
| "pc_isCustom (PC_L2 n) = isCustom n"

fun pc_obj :: "ParentChain \<Rightarrow> NetworkObj" where
  "pc_obj (PC_L1 n) = ObjL1 n"
| "pc_obj (PC_L2 n) = ObjL2 n"

text \<open>The properties read off a table entry; \<open>None\<close> is \<^verbatim>\<open>undefined\<close>.\<close>

fun obj_partnerChainIDs :: "NetworkObj \<Rightarrow> nat list option" where
  "obj_partnerChainIDs (ObjL1 n) = Some (partnerChainIDs n)"
| "obj_partnerChainIDs (ObjL2 n) = l2_partnerChainIDs n"
| "obj_partnerChainIDs (ObjPartnerIDsOnly ids) = Some ids"

fun obj_set_partnerChainIDs :: "NetworkObj \<Rightarrow> nat list \<Rightarrow> NetworkObj" where
  "obj_set_partnerChainIDs (ObjL1 n) ids = ObjL1 (n\<lparr>partnerChainIDs := ids\<rparr>)"
| "obj_set_partnerChainIDs (ObjL2 n) ids = ObjL2 (n\<lparr>l2_partnerChainIDs := Some ids\<rparr>)"
| "obj_set_partnerChainIDs (ObjPartnerIDsOnly _) ids = ObjPartnerIDsOnly ids"

fun obj_ethBridge :: "NetworkObj \<Rightarrow> EthBridge option" where
  "obj_ethBridge (ObjL2 n) = Some (ethBridge n)"
| "obj_ethBridge _ = None"

text \<open>
  The four module-level tables. A table is keyed by chain id and holds network values:
  the push onto \<^verbatim>\<open>partnerChainIDs\<close> at the end of a successful registration is written to
  the entry of the table it goes through. (In the sources \<^verbatim>\<open>parentChains\<close> and \<^verbatim>\<open>chains\<close>
  start as shallow copies of \<^verbatim>\<open>l1Networks\<close> and \<^verbatim>\<open>l2Networks\<close>, so a built-in entry is one
  object seen from two tables; every failure of a registration happens before any push.)
\<close>

record registry =
  l1Networks :: "nat \<rightharpoonup> L1Network"
  l2Networks :: "nat \<rightharpoonup> L2Network"
  parentChains :: "nat \<rightharpoonup> NetworkObj"
  chains :: "nat \<rightharpoonup> L2Network"

subsection \<open>The built-in tables\<close>

text \<open>
  The entries the module starts with. \<^verbatim>\<open>SEVEN_DAYS_IN_SECONDS\<close> comes from a module that is not
  among the sources; it is taken to be the 604800 that \<^verbatim>\<open>addDefaultLocalNetwork\<close> writes out.
\<close>

definition mainnet :: L1Network where
  "mainnet =
     \<lparr>chainID = 1, name = ''Mainnet'', explorerUrl = ''https://etherscan.io'',
      isCustom = False, partnerChainIDs = [42161, 42170], blockTime = 14\<rparr>"

definition hardhatMainnetFork :: L1Network where
  "hardhatMainnetFork =
     \<lparr>chainID = 1338, name = ''Hardhat_Mainnet_Fork'', explorerUrl = ''https://etherscan.io'',
      isCustom = False, partnerChainIDs = [42161], blockTime = 1\<rparr>"

definition goerli :: L1Network where
  "goerli =
     \<lparr>chainID = 5, name = ''Goerli'', explorerUrl = ''https://goerli.etherscan.io'',
      isCustom = False, partnerChainIDs = [421613], blockTime = 15\<rparr>"

definition sepolia :: L1Network where
  "sepolia =
     \<lparr>chainID = 11155111, name = ''Sepolia'', explorerUrl = ''https://sepolia.etherscan.io'',
      isCustom = False, partnerChainIDs = [421614], blockTime = 12\<rparr>"

definition arbitrumOne :: L2Network where
  "arbitrumOne =
     \<lparr>chainID = 42161, name = ''Arbitrum One'',
      explorerUrl = ''https://arbiscan.io'',
      isCustom = False, l2_partnerChainIDs = None,
      ethBridge =
        \<lparr>bridge = ''0x8315177aB297bA92A06054cE80a67Ed4DBd7ed3a'',
         inbox = ''0x4Dbd4fc535Ac27206064B68FfCf827b0A60BAB3f'',
         sequencerInbox = ''0x1c479675ad559DC151F6Ec7ed3FbF8ceE79582B6'',
         outbox = ''0x0B9857ae2D4A3DBe74ffE1d7DF045bb7F96E4840'',
         rollup = ''0x5eF0D09d1E6204141B4d37530808eD19f60FBa35'',
         classicOutboxes =
           Some [(''0x667e23ABd27E623c11d4CC00ca3EC4d0bD63337a'', 0),
                 (''0x760723CD2e632826c38Fef8CD438A4CC7E7E1A40'', 30)]\<rparr>,
      partnerChainID = 1, confirmPeriodBlocks = 45818,
      retryableLifetimeSeconds = 604800, nitroGenesisBlock = 22207817,
      nitroGenesisL1Block = 15447158, depositTimeout = 1800000,
      nativeToken = None\<rparr>"

definition arbitrumGoerli :: L2Network where
  "arbitrumGoerli =
     \<lparr>chainID = 421613, name = ''Arbitrum Rollup Goerli Testnet'',
      explorerUrl = ''https://goerli.arbiscan.io'',
      isCustom = False, l2_partnerChainIDs = None,
      ethBridge =
        \<lparr>bridge = ''0xaf4159a80b6cc41ed517db1c453d1ef5c2e4db72'',
         inbox = ''0x6BEbC4925716945D46F0Ec336D5C2564F419682C'',
         sequencerInbox = ''0x0484A87B144745A2E5b7c359552119B6EA2917A9'',
         outbox = ''0x45Af9Ed1D03703e480CE7d328fB684bb67DA5049'',
         rollup = ''0x45e5cAea8768F42B385A366D3551Ad1e0cbFAb17'',
         classicOutboxes = None\<rparr>,
      partnerChainID = 5, confirmPeriodBlocks = 20,
      retryableLifetimeSeconds = 604800, nitroGenesisBlock = 0,
      nitroGenesisL1Block = 0, depositTimeout = 3960000,
      nativeToken = None\<rparr>"

definition arbitrumNova :: L2Network where
  "arbitrumNova =
     \<lparr>chainID = 42170, name = ''Arbitrum Nova'',
      explorerUrl = ''https://nova.arbiscan.io'',
      isCustom = False, l2_partnerChainIDs = None,
      ethBridge =
        \<lparr>bridge = ''0xc1ebd02f738644983b6c4b2d440b8e77dde276bd'',
         inbox = ''0xc4448b71118c9071bcb9734a0eac55d18a153949'',
         sequencerInbox = ''0x211e1c4c7f1bf5351ac850ed10fd68cffcf6c21b'',
         outbox = ''0xD4B80C3D7240325D18E645B49e6535A3Bf95cc58'',
         rollup = ''0xfb209827c58283535b744575e11953dcc4bead88'',
         classicOutboxes = None\<rparr>,
      partnerChainID = 1, confirmPeriodBlocks = 45818,
      retryableLifetimeSeconds = 604800, nitroGenesisBlock = 0,
      nitroGenesisL1Block = 0, depositTimeout = 1800000,
      nativeToken = None\<rparr>"

definition arbitrumSepolia :: L2Network where
  "arbitrumSepolia =
     \<lparr>chainID = 421614, name = ''Arbitrum Rollup Sepolia Testnet'',
      explorerUrl = ''https://sepolia-explorer.arbitrum.io'',
      isCustom = False, l2_partnerChainIDs = None,
      ethBridge =
        \<lparr>bridge = ''0x38f918D0E9F1b721EDaA41302E399fa1B79333a9'',
         inbox = ''0xaAe29B0366299461418F5324a79Afc425BE5ae21'',
         sequencerInbox = ''0x6c97864CE4bEf387dE0b3310A44230f7E3F1be0D'',
         outbox = ''0x65f07C7D521164a4d5DaC6eB8Fac8DA067A3B78F'',
         rollup = ''0xd80810638dbDF9081b72C1B33c65375e807281C8'',
         classicOutboxes = None\<rparr>,
      partnerChainID = 11155111, confirmPeriodBlocks = 20,
      retryableLifetimeSeconds = 604800, nitroGenesisBlock = 0,
      nitroGenesisL1Block = 0, depositTimeout = 1800000,
      nativeToken = None\<rparr>"

definition l1Networks_entries :: "(nat \<times> L1Network) list" where
  "l1Networks_entries = [(1, mainnet), (1338, hardhatMainnetFork), (5, goerli), (11155111, sepolia)]"

definition l2Networks_entries :: "(nat \<times> L2Network) list" where
  "l2Networks_entries =
     [(42161, arbitrumOne), (421613, arbitrumGoerli), (42170, arbitrumNova),
      (421614, arbitrumSepolia)]"

text \<open>
  \<^verbatim>\<open>getL2ParentChains\<close> walks the keys of its argument and reads each network from the
  module's \<^verbatim>\<open>l2Networks\<close>.
\<close>

definition getL2ParentChains :: "(nat \<times> L2Network) list \<Rightarrow> (nat \<times> NetworkObj) list" where
  "getL2ParentChains l2Networks_arg =
     concat (map (\<lambda>(chainId, _).
       case map_of l2Networks_entries chainId of
         None \<Rightarrow> []
       | Some network \<Rightarrow>
           (case l2_partnerChainIDs network of
              None \<Rightarrow> []
            | Some ids \<Rightarrow> if length ids > 0 then [(chainId, ObjL2 network)] else []))
       l2Networks_arg)"

definition initial_registry :: registry where
  "initial_registry =
     \<lparr>l1Networks = map_of l1Networks_entries,
      l2Networks = map_of l2Networks_entries,
      parentChains =
        map_of (map (\<lambda>(k, n). (k, ObjL1 n)) l1Networks_entries)
          ++ map_of (getL2ParentChains l2Networks_entries),
      chains = map_of l2Networks_entries\<rparr>"

subsection \<open>Lookup\<close>

text \<open>
  What the lookups take from outside the sources: the helper
  \<^verbatim>\<open>SignerProviderUtils.getProviderOrThrow\<close> and the provider's \<^verbatim>\<open>getNetwork()\<close>, both as
  parameters. A provider is named by a number. A signer comes with the provider it is
  connected to, which the writer's constructor reads as \<^verbatim>\<open>l1Signer.provider!\<close>.
\<close>

type_synonym Provider = nat

record Signer =
  signer_id :: nat
  signer_provider :: Provider

datatype SignerOrProvider = IsProvider Provider | IsSigner Signer

datatype SignerOrProviderOrChainID = ChainID nat | SoP SignerOrProvider

record lookup_env =
  getProviderOrThrow :: "SignerOrProvider \<Rightarrow> Provider outcome"
  provider_getNetwork :: "Provider \<Rightarrow> nat outcome"

text \<open>The immediately invoked \<^verbatim>\<open>async\<close> function at the head of both lookups.\<close>

definition resolveChainID ::
  "'a lookup_env_scheme \<Rightarrow> SignerOrProviderOrChainID \<Rightarrow> nat outcome" where
  "resolveChainID env signerOrProviderOrChainID =
     await (async
       (case signerOrProviderOrChainID of
          ChainID n \<Rightarrow> Inr n
        | SoP sp \<Rightarrow>
            bindE (getProviderOrThrow env sp) (\<lambda>provider.
            bindE (provider_getNetwork env provider) (\<lambda>chainId. Inr chainId))))"

datatype layer = Layer1 | Layer2

text \<open>\<^verbatim>\<open>a || b\<close> on two table entries: the first when it is defined.\<close>

definition or_else :: "'a option \<Rightarrow> 'a option \<Rightarrow> 'a option" where
  "or_else a b = (case a of Some x \<Rightarrow> Some x | None \<Rightarrow> b)"

definition getNetwork ::
  "registry \<Rightarrow> 'a lookup_env_scheme \<Rightarrow> SignerOrProviderOrChainID \<Rightarrow> layer
     \<Rightarrow> (NetworkObj outcome) completion" where
  "getNetwork reg env signerOrProviderOrChainID layer =
     async
       (bindE (resolveChainID env signerOrProviderOrChainID) (\<lambda>chainID.
          let network =
            (case layer of
               Layer1 \<Rightarrow> map_option ObjL1 (l1Networks reg chainID)
             | Layer2 \<Rightarrow> map_option ObjL2 (or_else (l2Networks reg chainID) (chains reg chainID)))
          in case network of
               Some n \<Rightarrow> Inr n
             | None \<Rightarrow>
                 Inl (ArbSdkError (''Unrecognized network '' @ string_of_nat chainID @ ''.''))))"

definition getL1Network ::
  "registry \<Rightarrow> 'a lookup_env_scheme \<Rightarrow> SignerOrProviderOrChainID
     \<Rightarrow> (NetworkObj outcome) completion" where
  "getL1Network reg env signerOrProviderOrChainID =
     getNetwork reg env signerOrProviderOrChainID Layer1"

datatype chain_type = ParentChainT | ChainT

fun chain_type_name :: "chain_type \<Rightarrow> string" where
  "chain_type_name ParentChainT = ''ParentChain''"
| "chain_type_name ChainT = ''Chain''"

definition getParentChainOrChain ::
  "registry \<Rightarrow> 'a lookup_env_scheme \<Rightarrow> SignerOrProviderOrChainID \<Rightarrow> chain_type
     \<Rightarrow> (NetworkObj outcome) completion" where
  "getParentChainOrChain reg env signerOrProviderOrChainID type =
     async
       (bindE (resolveChainID env signerOrProviderOrChainID) (\<lambda>chainID.
          let chain =
            (case type of
               ParentChainT \<Rightarrow> parentChains reg chainID
             | ChainT \<Rightarrow> map_option ObjL2 (chains reg chainID))
          in case chain of
               None \<Rightarrow>
                 Inl (ArbSdkError (''Unrecognized '' @ chain_type_name type @ '' ''
                        @ string_of_nat chainID @ ''.''))
             | Some c \<Rightarrow> Inr c))"

definition getParentChain ::
  "registry \<Rightarrow> 'a lookup_env_scheme \<Rightarrow> SignerOrProviderOrChainID
     \<Rightarrow> (NetworkObj outcome) completion" where
  "getParentChain reg env signerOrProviderOrChainID =
     async (await (getParentChainOrChain reg env signerOrProviderOrChainID ParentChainT))"

definition getChain ::
  "registry \<Rightarrow> 'a lookup_env_scheme \<Rightarrow> SignerOrProviderOrChainID
     \<Rightarrow> (NetworkObj outcome) completion" where
  "getChain reg env signerOrProviderOrChainID =
     async (await (getParentChainOrChain reg env signerOrProviderOrChainID ChainT))"

text \<open>
  \<^verbatim>\<open>getL2Network\<close> is not \<^verbatim>\<open>async\<close>: it calls \<^verbatim>\<open>getNetwork\<close> inside \<^verbatim>\<open>try\<close> without awaiting
  it, and returns whichever promise it holds. The casts to \<^verbatim>\<open>Promise<L2Network>\<close> and
  \<^verbatim>\<open>Promise<Chain>\<close> do nothing at run time.
\<close>

definition getL2Network ::
  "registry \<Rightarrow> 'a lookup_env_scheme \<Rightarrow> SignerOrProviderOrChainID
     \<Rightarrow> (NetworkObj outcome) completion" where
  "getL2Network reg env signerOrProviderOrChainID =
     (case getNetwork reg env signerOrProviderOrChainID Layer2 of
        Returns l2Network \<Rightarrow> Returns l2Network
      | Throws _ \<Rightarrow> getChain reg env signerOrProviderOrChainID)"

subsection \<open>Registration\<close>

text \<open>
  A registration returns how it completed together with the tables as it leaves them: a
  throw does not undo the assignments made before it.

  \<^verbatim>\<open>addCustomChain\<close>. The spread \<^verbatim>\<open>{ ...parentChains[customChain.partnerChainID] }\<close> is an
  object (the empty one when the entry is \<^verbatim>\<open>undefined\<close>), so \<open>parentPartnerChain\<close> is
  always defined; only its being defined is read afterwards. In the message of the throw that
  follows, \<^verbatim>\<open>parentChains.partnerChainID\<close> reads a property of the table itself.
\<close>

definition spread_entry :: "NetworkObj option \<Rightarrow> NetworkObj option" where
  "spread_entry entry = (case entry of None \<Rightarrow> Some (ObjPartnerIDsOnly []) | Some obj \<Rightarrow> Some obj)"

text \<open>The block \<^verbatim>\<open>if (customParentChain) { ... }\<close>: the error it throws, if any.\<close>

definition customParentChain_checks :: "registry \<Rightarrow> ParentChain option \<Rightarrow> error option" where
  "customParentChain_checks reg customParentChain =
     (case customParentChain of
        None \<Rightarrow> None
      | Some p \<Rightarrow>
          if parentChains reg (pc_chainID p) \<noteq> None
          then Some (ArbSdkError (''Parent chain '' @ string_of_nat (pc_chainID p)
                 @ '' already included.''))
          else if \<not> pc_isCustom p
          then Some (ArbSdkError (''Custom parent chain '' @ string_of_nat (pc_chainID p)
                 @ '' must have isCustom flag set to true.''))
          else None)"

definition addCustomChain ::
  "registry \<Rightarrow> ParentChain option \<Rightarrow> L2Network \<Rightarrow> unit completion \<times> registry" where
  "addCustomChain reg customParentChain customChain =
     (case customParentChain_checks reg customParentChain of
        Some e \<Rightarrow> (Throws e, reg)
      | None \<Rightarrow>
      if chains reg (chainID customChain) \<noteq> None
      then (Throws (ArbSdkError (''Chain '' @ string_of_nat (chainID customChain)
              @ '' already included.'')), reg)
      else if \<not> isCustom customChain
      then (Throws (ArbSdkError (''Custom chain '' @ string_of_nat (chainID customChain)
              @ '' must have isCustom flag set to true.'')), reg)
      else
        let parentPartnerChain = spread_entry (parentChains reg (partnerChainID customChain));
            parentPartnerChain =
              (if parentPartnerChain = None
                  \<and> (case customParentChain of
                        None \<Rightarrow> False
                      | Some p \<Rightarrow> pc_chainID p = partnerChainID customChain)
               then map_option pc_obj customParentChain
               else parentPartnerChain)
        in
        if parentPartnerChain = None
        then (Throws (ArbSdkError (''Chain '' @ string_of_nat (chainID customChain)
                @ [CHR 0x27] @ ''s partner parent chain, undefined, not recognized.'')), reg)
        else
          let reg1 =
                (case customParentChain of
                   None \<Rightarrow> reg
                 | Some p \<Rightarrow> reg\<lparr>parentChains := (parentChains reg)(pc_chainID p \<mapsto> pc_obj p)\<rparr>);
              reg2 = reg1\<lparr>chains := (chains reg1)(chainID customChain \<mapsto> customChain)\<rparr>;
              reg3 =
                (if parentChains reg2 (partnerChainID customChain) = None
                 then reg2\<lparr>parentChains := (parentChains reg2)(partnerChainID customChain \<mapsto>
                        (case l2Networks reg2 (partnerChainID customChain) of
                           None \<Rightarrow> ObjPartnerIDsOnly []
                         | Some n \<Rightarrow> ObjL2 (n\<lparr>l2_partnerChainIDs := Some []\<rparr>)))\<rparr>
                 else reg2)
          in
          case parentChains reg3 (partnerChainID customChain) of
            None \<Rightarrow> (Throws (TypeError ''Cannot read properties of undefined''), reg3)
          | Some parent \<Rightarrow>
              (case obj_partnerChainIDs parent of
                 None \<Rightarrow> (Throws (TypeError ''Cannot read properties of undefined''), reg3)
               | Some ids \<Rightarrow>
                   if chainID customChain \<notin> set ids
                   then (Returns (),
                         reg3\<lparr>parentChains := (parentChains reg3)(partnerChainID customChain \<mapsto>
                           obj_set_partnerChainIDs parent (ids @ [chainID customChain]))\<rparr>)
                   else (Returns (), reg3)))"

text \<open>
  \<^verbatim>\<open>addCustomNetwork\<close>. The block \<^verbatim>\<open>if (customL1Network) { ... }\<close> throws or stores the L1
  entry; the L2 entry is stored before its partner is looked up.
\<close>

definition customL1Network_block :: "registry \<Rightarrow> L1Network option \<Rightarrow> error + registry" where
  "customL1Network_block reg customL1Network =
     (case customL1Network of
        None \<Rightarrow> Inr reg
      | Some l1 \<Rightarrow>
          if l1Networks reg (chainID l1) \<noteq> None
          then Inl (ArbSdkError (''Network '' @ string_of_nat (chainID l1) @ '' already included''))
          else if \<not> isCustom l1
          then Inl (ArbSdkError (''Custom network '' @ string_of_nat (chainID l1)
                 @ '' must have isCustom flag set to true''))
          else Inr (reg\<lparr>l1Networks := (l1Networks reg)(chainID l1 \<mapsto> l1)\<rparr>))"

definition addCustomNetwork ::
  "registry \<Rightarrow> L1Network option \<Rightarrow> L2Network \<Rightarrow> unit completion \<times> registry" where
  "addCustomNetwork reg customL1Network customL2Network =
     (case customL1Network_block reg customL1Network of
        Inl e \<Rightarrow> (Throws e, reg)
      | Inr reg1 \<Rightarrow>
        if l2Networks reg1 (chainID customL2Network) \<noteq> None
        then (Throws (ArbSdkError (''Network '' @ string_of_nat (chainID customL2Network)
                @ '' already included'')), reg1)
        else if \<not> isCustom customL2Network
        then (Throws (ArbSdkError (''Custom network ''
                @ string_of_nat (chainID customL2Network)
                @ '' must have isCustom flag set to true'')), reg1)
        else
          let reg2 = reg1\<lparr>l2Networks :=
                       (l2Networks reg1)(chainID customL2Network \<mapsto> customL2Network)\<rparr>
          in
          case l1Networks reg2 (partnerChainID customL2Network) of
            None \<Rightarrow>
              (Throws (ArbSdkError (''Network '' @ string_of_nat (chainID customL2Network)
                 @ [CHR 0x27] @ ''s partner network, ''
                 @ string_of_nat (partnerChainID customL2Network) @ '', not recognized'')), reg2)
          | Some l1PartnerChain \<Rightarrow>
              if chainID customL2Network \<notin> set (partnerChainIDs l1PartnerChain)
              then (Returns (),
                    reg2\<lparr>l1Networks := (l1Networks reg2)(partnerChainID customL2Network \<mapsto>
                      l1PartnerChain\<lparr>partnerChainIDs :=
                        partnerChainIDs l1PartnerChain @ [chainID customL2Network]\<rparr>)\<rparr>)
              else (Returns (), reg2))"

text \<open>\<^verbatim>\<open>addDefaultLocalNetwork\<close>: the networks of a local Nitro node.\<close>

definition defaultLocalL1Network :: L1Network where
  "defaultLocalL1Network =
     \<lparr>chainID = 1337, name = ''EthLocal'', explorerUrl = [], isCustom = True,
      partnerChainIDs = [412346], blockTime = 10\<rparr>"

definition defaultLocalL2Network :: L2Network where
  "defaultLocalL2Network =
     \<lparr>chainID = 412346, name = ''ArbLocal'', explorerUrl = [], isCustom = True,
      l2_partnerChainIDs = None,
      ethBridge =
        \<lparr>bridge = ''0x2b360a9881f21c3d7aa0ea6ca0de2a3341d4ef3c'',
         inbox = ''0xff4a24b22f94979e9ba5f3eb35838aa814bad6f1'',
         sequencerInbox = ''0xe7362d0787b51d8c72d504803e5b1d6dcda89540'',
         outbox = ''0x49940929c7cA9b50Ff57a01d3a92817A414E6B9B'',
         rollup = ''0x65a59d67da8e710ef9a01eca37f83f84aedec416'',
         classicOutboxes = None\<rparr>,
      partnerChainID = 1337, confirmPeriodBlocks = 20, retryableLifetimeSeconds = 604800,
      nitroGenesisBlock = 0, nitroGenesisL1Block = 0, depositTimeout = 900000,
      nativeToken = None\<rparr>"

definition addDefaultLocalNetwork ::
  "registry \<Rightarrow> (L1Network \<times> L2Network) completion \<times> registry" where
  "addDefaultLocalNetwork reg =
     (case addCustomNetwork reg (Some defaultLocalL1Network) defaultLocalL2Network of
        (Throws e, reg') \<Rightarrow> (Throws e, reg')
      | (Returns _, reg') \<Rightarrow> (Returns (defaultLocalL1Network, defaultLocalL2Network), reg'))"

text \<open>
  \<^verbatim>\<open>isL1Network\<close>: an array is an object, so \<^verbatim>\<open>!network.partnerChainIDs\<close> asks whether the
  property is missing.
\<close>

definition isL1Network :: "NetworkObj \<Rightarrow> bool" where
  "isL1Network network =
     (case obj_partnerChainIDs network of
        None \<Rightarrow> False
      | Some ids \<Rightarrow> length ids > 0)"

section \<open>Outbound messages (L2ToL1Message.ts)\<close>

datatype L2ToL1MessageStatus = NOT_FOUND | UNCONFIRMED | CONFIRMED | EXECUTED

text \<open>The number of an enum member, as a template literal prints it.\<close>

fun status_number :: "L2ToL1MessageStatus \<Rightarrow> nat" where
  "status_number NOT_FOUND = 0"
| "status_number UNCONFIRMED = 1"
| "status_number CONFIRMED = 2"
| "status_number EXECUTED = 3"

record L2ToL1Event =
  caller :: string
  destination :: string
  hash :: nat
  position :: nat
  indexInBatch :: nat
  arbBlockNum :: nat
  ethBlockNum :: nat
  timestamp :: nat
  callvalue :: nat
  data :: string

text \<open>
  A \<^verbatim>\<open>bytes32\<close> decoded from an event log is the string \<^verbatim>\<open>0x\<close> followed by hexadecimal
  digits; the datatype holds the digits.
\<close>

datatype Bytes32 = Bytes32 string

fun hexString :: "Bytes32 \<Rightarrow> string" where
  "hexString (Bytes32 digits) = ''0x'' @ digits"

text \<open>The arguments of a parsed \<^verbatim>\<open>NodeConfirmed\<close> log.\<close>

record NodeConfirmed =
  nodeNum :: nat
  blockHash :: Bytes32
  sendRoot :: Bytes32

text \<open>The two fields read from the block that \<^verbatim>\<open>eth_getBlockByHash\<close> answers with.\<close>

record L2Block =
  blk_sendRoot :: string
  blk_sendCount :: nat

datatype BlockTag = BlockNumber int | BlockName string

record LogFilter =
  address :: string
  fromBlock :: int
  toBlock :: BlockTag
  nodeNum_topic :: nat

record OutboxProofParams =
  sendAtLeaf :: string
  rootAtSize :: string
  proof_hashes :: "string list"

record ExecuteTransactionArgs =
  arg_proof :: "string list"
  arg_index :: nat
  arg_l2Sender :: string
  arg_to :: string
  arg_l2Block :: nat
  arg_l1Block :: nat
  arg_l2Timestamp :: nat
  arg_value :: nat
  arg_data :: string

type_synonym ContractTransaction = string

record EventTopics =
  topic_destination :: "string option"
  topic_uniqueId :: "nat option"
  topic_batchNumber :: "nat option"

record FetchedEvent =
  fe_event :: L2ToL1Event
  fe_transactionHash :: string

text \<open>
  What the chains answer at the time of a call, as parameters: every field is the outcome
  of one request. \<open>getLogs\<close> gives the logs the filter selects (\<^verbatim>\<open>NodeConfirmed\<close> of one
  node, at the rollup's address) already parsed; \<open>constructOutboxProof\<close> is the static call
  on the node interface at \<^verbatim>\<open>NODE_INTERFACE_ADDRESS\<close>; \<open>getEvents\<close> is the event fetcher on
  \<^verbatim>\<open>ArbSys\<close> at \<^verbatim>\<open>ARB_SYS_ADDRESS\<close>.
\<close>

record world = lookup_env +
  rollup_latestConfirmed :: "Provider \<Rightarrow> string \<Rightarrow> nat outcome"
  getBlockNumber :: "Provider \<Rightarrow> int outcome"
  getLogs :: "Provider \<Rightarrow> LogFilter \<Rightarrow> NodeConfirmed list outcome"
  eth_getBlockByHash :: "Provider \<Rightarrow> string \<Rightarrow> L2Block option outcome"
  outbox_spent :: "Provider \<Rightarrow> string \<Rightarrow> nat \<Rightarrow> bool outcome"
  constructOutboxProof :: "Provider \<Rightarrow> nat \<Rightarrow> nat \<Rightarrow> OutboxProofParams outcome"
  outbox_executeTransaction ::
    "Signer \<Rightarrow> string \<Rightarrow> ExecuteTransactionArgs \<Rightarrow> ContractTransaction outcome"
  getEvents :: "Provider \<Rightarrow> EventTopics \<Rightarrow> BlockTag \<times> BlockTag \<Rightarrow> FetchedEvent list outcome"

text \<open>
  \<^verbatim>\<open>BigNumber.toNumber()\<close> fails on a value that is not a safe integer of the runtime.
\<close>

definition toNumber :: "nat \<Rightarrow> nat outcome" where
  "toNumber n = (if n \<le> 9007199254740991 then Inr n else Inl (External ''overflow''))"

text \<open>
  The classes. A reader is a message with the provider, the outbox address and the two
  private fields that cache the confirming root; a writer is a reader with a signer.
\<close>

record L2ToL1Message =
  event :: L2ToL1Event

record L2ToL1MessageReader = L2ToL1Message +
  l1Provider :: Provider
  outboxAddress :: string
  sendRootHash :: "string option"
  sendRootSize :: "nat option"

record L2ToL1MessageWriter = L2ToL1MessageReader +
  l1Signer :: Signer

definition new_L2ToL1MessageReader ::
  "Provider \<Rightarrow> string \<Rightarrow> L2ToL1Event \<Rightarrow> L2ToL1MessageReader" where
  "new_L2ToL1MessageReader l1Provider_arg outboxAddress_arg event_arg =
     \<lparr>event = event_arg, l1Provider = l1Provider_arg, outboxAddress = outboxAddress_arg,
      sendRootHash = None, sendRootSize = None\<rparr>"

definition new_L2ToL1MessageWriter ::
  "Signer \<Rightarrow> string \<Rightarrow> L2ToL1Event \<Rightarrow> L2ToL1MessageWriter" where
  "new_L2ToL1MessageWriter l1Signer_arg outboxAddress_arg event_arg =
     \<lparr>event = event_arg, l1Provider = signer_provider l1Signer_arg,
      outboxAddress = outboxAddress_arg, sendRootHash = None, sendRootSize = None,
      l1Signer = l1Signer_arg\<rparr>"

datatype L2ToL1MessageReaderOrWriter =
    AReader L2ToL1MessageReader
  | AWriter L2ToL1MessageWriter

definition fromEvent ::
  "SignerOrProvider \<Rightarrow> string \<Rightarrow> L2ToL1Event \<Rightarrow> L2ToL1MessageReaderOrWriter" where
  "fromEvent l1SignerOrProvider outboxAddress_arg event_arg =
     (case l1SignerOrProvider of
        IsSigner s \<Rightarrow> AWriter (new_L2ToL1MessageWriter s outboxAddress_arg event_arg)
      | IsProvider p \<Rightarrow> AReader (new_L2ToL1MessageReader p outboxAddress_arg event_arg))"

text \<open>
  \<^verbatim>\<open>getL2ToL1MessageLogs\<close>. \<open>idx\<close> is the optional \<^verbatim>\<open>indexInBatch\<close>: a \<^verbatim>\<open>BigNumber\<close> is an
  object, so \<^verbatim>\<open>if (indexInBatch)\<close> asks whether it was supplied.
\<close>

definition getL2ToL1MessageLogs ::
  "'a world_scheme \<Rightarrow> Provider \<Rightarrow> BlockTag \<times> BlockTag \<Rightarrow> nat option \<Rightarrow> string option
     \<Rightarrow> nat option \<Rightarrow> nat option \<Rightarrow> L2ToL1Event list outcome" where
  "getL2ToL1MessageLogs w l2Provider block_filter batchNumber destination_arg uniqueId idx =
     bindE (getEvents w l2Provider
              \<lparr>topic_destination = destination_arg, topic_uniqueId = uniqueId,
               topic_batchNumber = batchNumber\<rparr> block_filter) (\<lambda>fetched.
       let events = map fe_event fetched in
       case idx of
         Some i \<Rightarrow>
           let indexItems = filter (\<lambda>b. indexInBatch b = i) events in
           if length indexItems = 1 then Inr indexItems
           else if length indexItems > 1
           then Inl (ArbTsError ''More than one indexed item found in batch.'')
           else Inr []
       | None \<Rightarrow> Inr events)"

text \<open>A string in a condition: \<^verbatim>\<open>undefined\<close> and the empty string count as false.\<close>

definition truthy :: "string option \<Rightarrow> bool" where
  "truthy s = (case s of None \<Rightarrow> False | Some str \<Rightarrow> str \<noteq> [])"

text \<open>
  \<^verbatim>\<open>updateSendRoot\<close>. It assigns the two cache fields in its last statement only, so a
  failure leaves the reader as it was. Before the throw on unequal send roots the source
  prints the two roots with \<^verbatim>\<open>console.log\<close>; the console is not part of the outcome and is
  left out.
\<close>

definition updateSendRoot ::
  "registry \<Rightarrow> 'w world_scheme \<Rightarrow> Provider \<Rightarrow> Provider \<Rightarrow> 'a L2ToL1MessageReader_scheme
     \<Rightarrow> ('a L2ToL1MessageReader_scheme) outcome" where
  "updateSendRoot reg w l1Provider_arg l2Provider r =
     (if truthy (sendRootHash r) then Inr r
      else
        bindE (await (getL2Network reg w (SoP (IsProvider l2Provider)))) (\<lambda>l2Network.
        bindE (case obj_ethBridge l2Network of
                 None \<Rightarrow> Inl (TypeError ''Cannot read properties of undefined'')
               | Some b \<Rightarrow> Inr (rollup b)) (\<lambda>rollup_address.
        bindE (rollup_latestConfirmed w l1Provider_arg rollup_address) (\<lambda>latestConfirmedNode.
        bindE (getBlockNumber w l1Provider_arg) (\<lambda>currentBlock.
        bindE (getLogs w l1Provider_arg
                 \<lparr>address = rollup_address,
                  fromBlock = max (currentBlock - (4 * 7 * 24 * 60 * 60) div 14) 0,
                  toBlock = BlockName ''latest'',
                  nodeNum_topic = latestConfirmedNode\<rparr>) (\<lambda>logs.
        if length logs \<noteq> 1 then Inl (JsError ''missing logs'')
        else
          let parsedLog = hd logs in
          bindE (eth_getBlockByHash w l2Provider (hexString (blockHash parsedLog))) (\<lambda>l2Block.
          case l2Block of
            None \<Rightarrow> Inl (TypeError ''Cannot read properties of null'')
          | Some blk \<Rightarrow>
              if blk_sendRoot blk \<noteq> hexString (sendRoot parsedLog)
              then Inl (JsError ''send roots'')
              else
                let sendRootSize_new = blk_sendCount blk in
                if sendRootSize_new > position (event r)
                then Inr (r\<lparr>sendRootSize := Some sendRootSize_new,
                            sendRootHash := Some (hexString (sendRoot parsedLog))\<rparr>)
                else Inr r)))))))"

text \<open>
  The static call \<^verbatim>\<open>constructOutboxProof(size.toNumber(), position.toNumber())\<close> on the node
  interface: the two conversions, then the request.
\<close>

definition callConstructOutboxProof ::
  "'w world_scheme \<Rightarrow> Provider \<Rightarrow> nat \<Rightarrow> nat \<Rightarrow> OutboxProofParams outcome" where
  "callConstructOutboxProof w l2Provider size_big leaf_big =
     bindE (toNumber size_big) (\<lambda>size_arg.
     bindE (toNumber leaf_big) (\<lambda>leaf.
     constructOutboxProof w l2Provider size_arg leaf))"

text \<open>
  The public methods return their outcome together with the reader as the call leaves it.
\<close>

definition getOutboxProof ::
  "registry \<Rightarrow> 'w world_scheme \<Rightarrow> Provider \<Rightarrow> 'a L2ToL1MessageReader_scheme
     \<Rightarrow> (string list) outcome \<times> 'a L2ToL1MessageReader_scheme" where
  "getOutboxProof reg w l2Provider r =
     (case updateSendRoot reg w (l1Provider r) l2Provider r of
        Inl e \<Rightarrow> (Inl e, r)
      | Inr r' \<Rightarrow>
          (case sendRootSize r' of
             None \<Rightarrow> (Inl (ArbTsError ''Node not confirmed, cannot get proof.''), r')
           | Some size_set \<Rightarrow>
               (bindE (callConstructOutboxProof w l2Provider size_set (position (event r')))
                  (\<lambda>outboxProofParams. Inr (proof_hashes outboxProofParams)), r')))"

definition status ::
  "registry \<Rightarrow> 'w world_scheme \<Rightarrow> Provider \<Rightarrow> 'a L2ToL1MessageReader_scheme
     \<Rightarrow> L2ToL1MessageStatus outcome \<times> 'a L2ToL1MessageReader_scheme" where
  "status reg w l2Provider r =
     (case updateSendRoot reg w (l1Provider r) l2Provider r of
        Inl e \<Rightarrow> (Inl e, r)
      | Inr r' \<Rightarrow>
          if \<not> truthy (sendRootHash r') then (Inr UNCONFIRMED, r')
          else
            (bindE (outbox_spent w (l1Provider r') (outboxAddress r') (position (event r')))
               (\<lambda>spent. Inr (if spent then EXECUTED else CONFIRMED)), r'))"

definition execute ::
  "registry \<Rightarrow> 'w world_scheme \<Rightarrow> Provider \<Rightarrow> L2ToL1MessageWriter
     \<Rightarrow> ContractTransaction outcome \<times> L2ToL1MessageWriter" where
  "execute reg w l2Provider r =
     (case status reg w l2Provider r of
        (Inl e, r1) \<Rightarrow> (Inl e, r1)
      | (Inr st, r1) \<Rightarrow>
          if st \<noteq> CONFIRMED
          then (Inl (ArbTsError (''Cannot execute message. Status is: ''
                  @ string_of_nat (status_number st) @ '' but must be ''
                  @ string_of_nat (status_number CONFIRMED) @ ''.'')), r1)
          else
            (case getOutboxProof reg w l2Provider r1 of
               (Inl e, r2) \<Rightarrow> (Inl e, r2)
             | (Inr proof_found, r2) \<Rightarrow>
                 (outbox_executeTransaction w (l1Signer r2) (outboxAddress r2)
                    \<lparr>arg_proof = proof_found,
                     arg_index = position (event r2),
                     arg_l2Sender = caller (event r2),
                     arg_to = destination (event r2),
                     arg_l2Block = arbBlockNum (event r2),
                     arg_l1Block = ethBlockNum (event r2),
                     arg_l2Timestamp = timestamp (event r2),
                     arg_value = callvalue (event r2),
                     arg_data = data (event r2)\<rparr>, r2)))"

text \<open>
  A sequence of \<^verbatim>\<open>status()\<close> calls on one instance, each with the tables, the chains'
  answers and the L2 provider of its time: the outcome of every call, with the reader as
  the call leaves it.
\<close>

fun status_calls ::
  "(registry \<times> 'w world_scheme \<times> Provider) list \<Rightarrow> 'a L2ToL1MessageReader_scheme
     \<Rightarrow> (L2ToL1MessageStatus outcome \<times> 'a L2ToL1MessageReader_scheme) list" where
  "status_calls [] r = []"
| "status_calls ((reg, w, l2Provider) # rest) r =
     (let (outcome, r') = status reg w l2Provider r in (outcome, r') # status_calls rest r')"

text \<open>
  The state of the cache: both fields unset, or a non-empty hash with a size above the
  message's position.
\<close>

definition cache_inv :: "'a L2ToL1MessageReader_scheme \<Rightarrow> bool" where
  "cache_inv r =
     (case sendRootHash r of
        None \<Rightarrow> sendRootSize r = None
      | Some h \<Rightarrow>
          h \<noteq> [] \<and> (case sendRootSize r of None \<Rightarrow> False | Some n \<Rightarrow> position (event r) < n))"

section \<open>Fee estimation\<close>

text \<open>
  Modelled from the spec: the gas estimator (\<^verbatim>\<open>L1ToL2MessageGasEstimator\<close>) is not among the
  sources, which only import its type \<^verbatim>\<open>GasOverrides\<close>. This is the division of the
  specification's "all arithmetic on fee/gas quantities uses arbitrary-precision integers
  [...] truncating toward zero": the quotient of the absolute values, with the sign of the
  exact quotient.
\<close>

definition tdiv :: "int \<Rightarrow> int \<Rightarrow> int" where
  "tdiv a b = sgn a * sgn b * (\<bar>a\<bar> div \<bar>b\<bar>)"

text \<open>
  Modelled from the spec: the estimator's percentage increase is missing from the sources.
  The specification: "percentage increase is computed as \<^verbatim>\<open>base + base*percent/100\<close>,
  truncating toward zero".
\<close>

definition percentIncrease :: "int \<Rightarrow> int \<Rightarrow> int" where
  "percentIncrease base percent = base + tdiv (base * percent) 100"

text \<open>
  Modelled from the spec: the estimator's use of an override \<^verbatim>\<open>{base, percentIncrease, min}\<close>
  is missing from the sources. The specification: a value is "inflated by a configurable
  percentage and floored at a configurable minimum", and the "result is always \<ge> \<^verbatim>\<open>min\<close>
  override when supplied". \<open>min_override\<close> is \<open>None\<close> when no minimum is supplied.
\<close>

definition increasePolicy :: "int \<Rightarrow> int \<Rightarrow> int option \<Rightarrow> int" where
  "increasePolicy base percent min_override =
     (let increased = percentIncrease base percent in
      case min_override of
        None \<Rightarrow> increased
      | Some minimum \<Rightarrow> max increased minimum)"

section \<open>Concrete inputs\<close>

text \<open>
  Helpers and chain answers used to run the definitions: the provider helper hands back a
  provider as it is and a signer's provider; provider 10 is connected to Mainnet, provider 20
  to Arbitrum One, and any other provider does not answer.
\<close>

definition local_env :: lookup_env where
  "local_env =
     \<lparr>getProviderOrThrow =
        (\<lambda>sp. case sp of IsProvider p \<Rightarrow> Inr p | IsSigner s \<Rightarrow> Inr (signer_provider s)),
      provider_getNetwork =
        (\<lambda>p. if p = 20 then Inr 42161 else if p = 10 then Inr 1 else Inl (External ''timeout''))\<rparr>"

text \<open>
  A custom L2 network whose partner, chain 999, is in no table, and a custom copy of
  Arbitrum One's entry under its own chain id.
\<close>

definition orphanL2Network :: L2Network where
  "orphanL2Network = defaultLocalL2Network\<lparr>chainID := 555, partnerChainID := 999\<rparr>"

definition duplicateL2Network :: L2Network where
  "duplicateL2Network = arbitrumOne\<lparr>isCustom := True\<rparr>"

text \<open>
  A withdrawal at position 5 of the outbox tree, and two further events; the second and the
  third carry the same index in their batch.
\<close>

definition withdrawal :: L2ToL1Event where
  "withdrawal =
     \<lparr>caller = ''0xca11e4'', destination = ''0xde57'', hash = 77, position = 5,
      indexInBatch = 0, arbBlockNum = 1200, ethBlockNum = 900, timestamp = 1700000000,
      callvalue = 1000, data = ''0x''\<rparr>"

definition withdrawal6 :: L2ToL1Event where
  "withdrawal6 = withdrawal\<lparr>hash := 78, position := 6, indexInBatch := 1\<rparr>"

definition withdrawal7 :: L2ToL1Event where
  "withdrawal7 = withdrawal\<lparr>hash := 79, position := 7, indexInBatch := 1\<rparr>"

text \<open>
  The chains' answers in the scenario of the specification: the latest confirmed node is
  node 7, its \<^verbatim>\<open>NodeConfirmed\<close> log lies inside the searched window, the block it commits to
  reports the same send root and a send count of 10, and the outbox has not spent position
  5. The L1 provider is provider 10, the L2 provider is provider 20.
\<close>

definition node7 :: NodeConfirmed where
  "node7 = \<lparr>nodeNum = 7, blockHash = Bytes32 ''b10c'', sendRoot = Bytes32 ''5e4d''\<rparr>"

definition confirmed_world :: world where
  "confirmed_world =
     \<lparr>getProviderOrThrow =
        (\<lambda>sp. case sp of IsProvider p \<Rightarrow> Inr p | IsSigner s \<Rightarrow> Inr (signer_provider s)),
      provider_getNetwork =
        (\<lambda>p. if p = 20 then Inr 42161 else if p = 10 then Inr 1 else Inl (External ''timeout'')),
      rollup_latestConfirmed = (\<lambda>p a. if p = 10 then Inr 7 else Inl (External ''timeout'')),
      getBlockNumber = (\<lambda>p. if p = 10 then Inr 18000000 else Inl (External ''timeout'')),
      getLogs =
        (\<lambda>p f. if p = 10 \<and> nodeNum_topic f = 7 \<and> fromBlock f \<le> 17990000
               then Inr [node7] else Inr []),
      eth_getBlockByHash =
        (\<lambda>p h. if p = 20 \<and> h = ''0xb10c''
               then Inr (Some \<lparr>blk_sendRoot = ''0x5e4d'', blk_sendCount = 10\<rparr>)
               else Inr None),
      outbox_spent = (\<lambda>p a i. Inr False),
      constructOutboxProof =
        (\<lambda>p s l. Inr \<lparr>sendAtLeaf = ''0x1eaf'', rootAtSize = ''0x5e4d'',
                       proof_hashes = [''0xaa'', ''0xbb'', ''0xcc'']\<rparr>),
      outbox_executeTransaction = (\<lambda>s a args. Inr ''0x7e57''),
      getEvents =
        (\<lambda>p t bf. Inr [\<lparr>fe_event = withdrawal, fe_transactionHash = ''0x01''\<rparr>,
                        \<lparr>fe_event = withdrawal6, fe_transactionHash = ''0x02''\<rparr>,
                        \<lparr>fe_event = withdrawal7, fe_transactionHash = ''0x03''\<rparr>])\<rparr>"

definition withdrawal_reader :: L2ToL1MessageReader where
  "withdrawal_reader = new_L2ToL1MessageReader 10 (outbox (ethBridge arbitrumOne)) withdrawal"

text \<open>The same chains once the outbox has spent position 5.\<close>

definition executed_world :: world where
  "executed_world = confirmed_world\<lparr>outbox_spent := (\<lambda>p a i. Inr (i = 5))\<rparr>"

text \<open>The same chains when the confirmed block has a send count of 5 only.\<close>

definition unconfirmed_world :: world where
  "unconfirmed_world =
     confirmed_world\<lparr>eth_getBlockByHash :=
       (\<lambda>p h. if p = 20 \<and> h = ''0xb10c''
              then Inr (Some \<lparr>blk_sendRoot = ''0x5e4d'', blk_sendCount = 5\<rparr>)
              else Inr None)\<rparr>"

text \<open>
  No \<^verbatim>\<open>NodeConfirmed\<close> log in the window: at block 18000000, and on a chain that is 100
  blocks old, where the window starts at block 0.
\<close>

definition no_log_world :: world where
  "no_log_world = confirmed_world\<lparr>getLogs := (\<lambda>p f. Inr [])\<rparr>"

definition young_chain_world :: world where
  "young_chain_world =
     confirmed_world\<lparr>getBlockNumber := (\<lambda>p. Inr 100),
                      getLogs := (\<lambda>p f. if fromBlock f = 0 then Inr [] else Inr [node7])\<rparr>"

text \<open>
  Two L2 nodes whose block reports another send root than the assertion: on Arbitrum One
  for node 7, and on Arbitrum Nova for node 9 and another block.
\<close>

definition mismatch_world :: world where
  "mismatch_world =
     confirmed_world\<lparr>eth_getBlockByHash :=
       (\<lambda>p h. Inr (Some \<lparr>blk_sendRoot = ''0xdead'', blk_sendCount = 10\<rparr>))\<rparr>"

definition node9 :: NodeConfirmed where
  "node9 = \<lparr>nodeNum = 9, blockHash = Bytes32 ''f00d'', sendRoot = Bytes32 ''cafe''\<rparr>"

definition mismatch_world_nova :: world where
  "mismatch_world_nova =
     confirmed_world\<lparr>provider_getNetwork := (\<lambda>p. if p = 20 then Inr 42170 else Inr 1),
       rollup_latestConfirmed := (\<lambda>p a. Inr 9),
       getLogs := (\<lambda>p f. if nodeNum_topic f = 9 then Inr [node9] else Inr []),
       eth_getBlockByHash :=
         (\<lambda>p h. if h = ''0xf00d''
                then Inr (Some \<lparr>blk_sendRoot = ''0xbeef'', blk_sendCount = 10\<rparr>)
                else Inr None)\<rparr>"

text \<open>The same message held by a signer connected to provider 10.\<close>

definition withdrawal_writer :: L2ToL1MessageWriter where
  "withdrawal_writer =
     new_L2ToL1MessageWriter \<lparr>signer_id = 1, signer_provider = 10\<rparr>
       (outbox (ethBridge arbitrumOne)) withdrawal"

text \<open>The reader of the withdrawal once node 7's root is cached.\<close>

definition withdrawal_reader_cached :: L2ToL1MessageReader where
  "withdrawal_reader_cached =
     withdrawal_reader\<lparr>sendRootSize := Some 10, sendRootHash := Some ''0x5e4d''\<rparr>"

section \<open>Lookup: the fallback of getL2Network\<close>

lemma getL2Network_is_getNetwork:
  "getL2Network reg env x = getNetwork reg env x Layer2"
  by (simp add: getL2Network_def getNetwork_def async_def)

lemma await_getNetwork_Layer2:
  "await (getNetwork reg env x Layer2) =
     bindE (resolveChainID env x) (\<lambda>c.
       case or_else (l2Networks reg c) (chains reg c) of
         Some n \<Rightarrow> Inr (ObjL2 n)
       | None \<Rightarrow> Inl (ArbSdkError (''Unrecognized network '' @ string_of_nat c @ ''.'')))"
  by (auto simp: getNetwork_def async_def await_def bindE_def or_else_def
           split: sum.splits option.splits)

lemma await_getL2Network:
  "await (getL2Network reg env x) =
     bindE (resolveChainID env x) (\<lambda>c.
       case or_else (l2Networks reg c) (chains reg c) of
         Some n \<Rightarrow> Inr (ObjL2 n)
       | None \<Rightarrow> Inl (ArbSdkError (''Unrecognized network '' @ string_of_nat c @ ''.'')))"
  by (simp add: getL2Network_is_getNetwork await_getNetwork_Layer2)

lemma resolveChainID_provider:
  assumes "getProviderOrThrow w (IsProvider p) = Inr p'"
      and "provider_getNetwork w p' = Inr c"
  shows "resolveChainID w (SoP (IsProvider p)) = Inr c"
  using assms by (simp add: resolveChainID_def async_def await_def bindE_def)

text \<open>
  Claim C10. \<^verbatim>\<open>getNetwork\<close> is \<^verbatim>\<open>async\<close>, so the call guarded by \<^verbatim>\<open>try\<close> in \<^verbatim>\<open>getL2Network\<close>
  always returns a promise and the \<^verbatim>\<open>catch\<close> branch never runs: \<^verbatim>\<open>getL2Network\<close> is
  \<^verbatim>\<open>getNetwork\<close> at layer 2 on every input. A failure to resolve the chain id is passed on
  as it is, and a chain id found in neither \<^verbatim>\<open>l2Networks\<close> nor \<^verbatim>\<open>chains\<close> is rejected with
  the message of \<^verbatim>\<open>getNetwork\<close>, \<^verbatim>\<open>Unrecognized network\<close>, not with the one \<^verbatim>\<open>getChain\<close> would
  give.
\<close>

theorem getL2Network_never_falls_back:
  "getL2Network reg env x = getNetwork reg env x Layer2
   \<and> (\<exists>promise. getL2Network reg env x = Returns promise)
   \<and> (\<forall>e. resolveChainID env x = Inl e \<longrightarrow> await (getL2Network reg env x) = Inl e)
   \<and> (\<forall>c. resolveChainID env x = Inr c \<longrightarrow> l2Networks reg c = None \<longrightarrow> chains reg c = None
        \<longrightarrow> await (getL2Network reg env x)
              = Inl (ArbSdkError (''Unrecognized network '' @ string_of_nat c @ ''.''))
          \<and> await (getChain reg env x)
              = Inl (ArbSdkError (''Unrecognized Chain '' @ string_of_nat c @ ''.'')))"
  by (auto simp: getL2Network_is_getNetwork await_getNetwork_Layer2 bindE_def or_else_def
        getNetwork_def getChain_def getParentChainOrChain_def async_def await_def)

theorem getL2Network_never_falls_back_witness:
  "await (getL2Network initial_registry local_env (ChainID 7))
     = Inl (ArbSdkError ''Unrecognized network 7.'')
   \<and> await (getChain initial_registry local_env (ChainID 7))
     = Inl (ArbSdkError ''Unrecognized Chain 7.'')
   \<and> getL2Network initial_registry local_env (ChainID 7)
     = getNetwork initial_registry local_env (ChainID 7) Layer2"
proof -
  have c: "resolveChainID local_env (ChainID 7) = Inr 7"
    by (simp add: resolveChainID_def async_def await_def)
  have l2: "l2Networks initial_registry 7 = None"
    by (simp add: initial_registry_def l2Networks_entries_def)
  have ch: "chains initial_registry 7 = None"
    by (simp add: initial_registry_def l2Networks_entries_def)
  have digits: "string_of_nat 7 = ''7''"
    by (simp add: string_of_nat.simps)
  show ?thesis
    using getL2Network_never_falls_back [of initial_registry local_env "ChainID 7"] c l2 ch digits
    by auto
qed

section \<open>Registration: what a failed call leaves behind\<close>

lemma addCustomChain_guards:
  assumes "(\<exists>p. customParentChain = Some p
              \<and> (parentChains reg (pc_chainID p) \<noteq> None \<or> \<not> pc_isCustom p))
           \<or> chains reg (chainID customChain) \<noteq> None
           \<or> \<not> isCustom customChain"
  shows "\<exists>e. addCustomChain reg customParentChain customChain = (Throws (ArbSdkError e), reg)"
  using assms
  by (auto simp: addCustomChain_def customParentChain_checks_def split: option.splits)

lemma addCustomNetwork_l1_guard:
  assumes "customL1Network = Some l1"
      and "l1Networks reg (chainID l1) \<noteq> None \<or> \<not> isCustom l1"
  shows "\<exists>e. addCustomNetwork reg customL1Network customL2Network
               = (Throws (ArbSdkError e), reg)"
  using assms by (auto simp: addCustomNetwork_def customL1Network_block_def)

lemma customL1Network_block_stores:
  assumes "customL1Network_block reg customL1Network = Inr reg1"
  shows "l2Networks reg1 = l2Networks reg \<and> parentChains reg1 = parentChains reg
         \<and> chains reg1 = chains reg
         \<and> l1Networks reg1 =
             (case customL1Network of
                None \<Rightarrow> l1Networks reg
              | Some l1 \<Rightarrow> (l1Networks reg)(chainID l1 \<mapsto> l1))"
  using assms
  by (auto simp: customL1Network_block_def split: option.splits if_splits)

lemma addCustomNetwork_l2_guard:
  assumes "customL1Network_block reg customL1Network = Inr reg1"
      and "l2Networks reg (chainID customL2Network) \<noteq> None \<or> \<not> isCustom customL2Network"
  shows "\<exists>e. addCustomNetwork reg customL1Network customL2Network
               = (Throws (ArbSdkError e), reg1)"
  using assms customL1Network_block_stores [OF assms(1)]
  by (auto simp: addCustomNetwork_def)

lemma addCustomNetwork_partner:
  assumes "customL1Network_block reg customL1Network = Inr reg1"
      and "l2Networks reg (chainID customL2Network) = None"
      and "isCustom customL2Network"
      and "l1Networks reg1 (partnerChainID customL2Network) = None"
  shows "addCustomNetwork reg customL1Network customL2Network =
           (Throws (ArbSdkError (''Network '' @ string_of_nat (chainID customL2Network)
                 @ [CHR 0x27] @ ''s partner network, ''
                 @ string_of_nat (partnerChainID customL2Network) @ '', not recognized'')),
            reg1\<lparr>l2Networks := (l2Networks reg1)(chainID customL2Network \<mapsto> customL2Network)\<rparr>)"
  using assms customL1Network_block_stores [OF assms(1)]
  by (auto simp: addCustomNetwork_def)

text \<open>
  The check of the partner in \<^verbatim>\<open>addCustomChain\<close> tests a spread object, which is always
  defined: the throw behind it is never reached, whatever the tables hold.
\<close>

lemma addCustomChain_partner_check_dead:
  "fst (addCustomChain reg customParentChain customChain)
     \<noteq> Throws (ArbSdkError (''Chain '' @ string_of_nat (chainID customChain)
                @ [CHR 0x27] @ ''s partner parent chain, undefined, not recognized.''))"
  by (auto simp: addCustomChain_def customParentChain_checks_def spread_entry_def Let_def
        split: option.splits)

lemma addCustomChain_orphan_registered:
  "fst (addCustomChain initial_registry None orphanL2Network) = Returns ()
   \<and> chains (snd (addCustomChain initial_registry None orphanL2Network)) 555
       = Some orphanL2Network
   \<and> parentChains initial_registry 999 = None
   \<and> parentChains (snd (addCustomChain initial_registry None orphanL2Network)) 999
       = Some (ObjPartnerIDsOnly [555])"
  by (simp add: addCustomChain_def customParentChain_checks_def spread_entry_def
        initial_registry_def l2Networks_entries_def l1Networks_entries_def
        getL2ParentChains_def arbitrumOne_def arbitrumGoerli_def arbitrumNova_def
        arbitrumSepolia_def orphanL2Network_def defaultLocalL2Network_def)

text \<open>
  Claim C7, as stated, fails: \<^verbatim>\<open>addCustomNetwork\<close> stores the L2 entry before it looks up
  the entry's partner, so the call that fails on an unknown partner leaves the entry in
  \<^verbatim>\<open>l2Networks\<close>. Here the partner 999 of chain 555 is in no table and no L1 network is
  passed; the call throws and chain 555 is registered.
\<close>

theorem addCustomNetwork_failure_keeps_entry:
  "fst (addCustomNetwork initial_registry None orphanL2Network)
     = Throws (ArbSdkError
         (''Network 555'' @ [CHR 0x27] @ ''s partner network, 999, not recognized''))
   \<and> l2Networks initial_registry 555 = None
   \<and> l2Networks (snd (addCustomNetwork initial_registry None orphanL2Network)) 555
       = Some orphanL2Network"
  by (simp add: addCustomNetwork_def customL1Network_block_def initial_registry_def
        l2Networks_entries_def l1Networks_entries_def orphanL2Network_def
        defaultLocalL2Network_def string_of_nat.simps)

text \<open>
  Claim C7, amended. A registration throws when a descriptor's chain id is already in its
  table or its \<^verbatim>\<open>isCustom\<close> flag is unset. \<^verbatim>\<open>addCustomChain\<close> then leaves every table as it
  was. \<^verbatim>\<open>addCustomNetwork\<close> leaves every table as it was when the L1 descriptor fails; when
  the L2 descriptor fails, the tables are those left by the L1 block (an L1 network passed
  in the same call is already stored, nothing else has changed). \<^verbatim>\<open>addCustomNetwork\<close> also
  throws when the partner of the L2 entry is neither in \<^verbatim>\<open>l1Networks\<close> nor the L1 network
  passed in the same call, and that throw comes after the L2 entry has been stored.
\<close>

theorem registration_guards:
  "(((\<exists>p. customParentChain = Some p
          \<and> (parentChains reg (pc_chainID p) \<noteq> None \<or> \<not> pc_isCustom p))
      \<or> chains reg (chainID customChain) \<noteq> None
      \<or> \<not> isCustom customChain)
     \<longrightarrow> (\<exists>e. addCustomChain reg customParentChain customChain
                 = (Throws (ArbSdkError e), reg)))
   \<and> (\<forall>l1. customL1Network = Some l1
         \<longrightarrow> (l1Networks reg (chainID l1) \<noteq> None \<or> \<not> isCustom l1)
         \<longrightarrow> (\<exists>e. addCustomNetwork reg customL1Network customL2Network
                    = (Throws (ArbSdkError e), reg)))
   \<and> (\<forall>reg1. customL1Network_block reg customL1Network = Inr reg1
         \<longrightarrow> l2Networks reg1 = l2Networks reg \<and> parentChains reg1 = parentChains reg
             \<and> chains reg1 = chains reg
             \<and> l1Networks reg1 =
                 (case customL1Network of
                    None \<Rightarrow> l1Networks reg
                  | Some l1 \<Rightarrow> (l1Networks reg)(chainID l1 \<mapsto> l1))
             \<and> ((l2Networks reg (chainID customL2Network) \<noteq> None
                    \<or> \<not> isCustom customL2Network)
                  \<longrightarrow> (\<exists>e. addCustomNetwork reg customL1Network customL2Network
                             = (Throws (ArbSdkError e), reg1)))
             \<and> (l2Networks reg (chainID customL2Network) = None
                  \<longrightarrow> isCustom customL2Network
                  \<longrightarrow> l1Networks reg1 (partnerChainID customL2Network) = None
                  \<longrightarrow> addCustomNetwork reg customL1Network customL2Network =
                        (Throws (ArbSdkError
                           (''Network '' @ string_of_nat (chainID customL2Network)
                            @ [CHR 0x27] @ ''s partner network, ''
                            @ string_of_nat (partnerChainID customL2Network)
                            @ '', not recognized'')),
                         reg1\<lparr>l2Networks :=
                           (l2Networks reg1)(chainID customL2Network \<mapsto> customL2Network)\<rparr>)))"
proof (intro conjI allI impI)
  assume "(\<exists>p. customParentChain = Some p
              \<and> (parentChains reg (pc_chainID p) \<noteq> None \<or> \<not> pc_isCustom p))
          \<or> chains reg (chainID customChain) \<noteq> None
          \<or> \<not> isCustom customChain"
  then show "\<exists>e. addCustomChain reg customParentChain customChain
                   = (Throws (ArbSdkError e), reg)"
    by (rule addCustomChain_guards)
next
  fix l1
  assume "customL1Network = Some l1"
     and "l1Networks reg (chainID l1) \<noteq> None \<or> \<not> isCustom l1"
  then show "\<exists>e. addCustomNetwork reg customL1Network customL2Network
                   = (Throws (ArbSdkError e), reg)"
    by (rule addCustomNetwork_l1_guard)
next
  fix reg1
  assume b: "customL1Network_block reg customL1Network = Inr reg1"
  from customL1Network_block_stores [OF b]
  show "l2Networks reg1 = l2Networks reg" "parentChains reg1 = parentChains reg"
       "chains reg1 = chains reg"
       "l1Networks reg1 =
          (case customL1Network of
             None \<Rightarrow> l1Networks reg
           | Some l1 \<Rightarrow> (l1Networks reg)(chainID l1 \<mapsto> l1))"
    by simp_all
  {
    assume "l2Networks reg (chainID customL2Network) \<noteq> None \<or> \<not> isCustom customL2Network"
    with b show "\<exists>e. addCustomNetwork reg customL1Network customL2Network
                       = (Throws (ArbSdkError e), reg1)"
      by (rule addCustomNetwork_l2_guard)
  }
  {
    assume "l2Networks reg (chainID customL2Network) = None"
       and "isCustom customL2Network"
       and "l1Networks reg1 (partnerChainID customL2Network) = None"
    with b show "addCustomNetwork reg customL1Network customL2Network =
                   (Throws (ArbSdkError
                      (''Network '' @ string_of_nat (chainID customL2Network)
                       @ [CHR 0x27] @ ''s partner network, ''
                       @ string_of_nat (partnerChainID customL2Network)
                       @ '', not recognized'')),
                    reg1\<lparr>l2Networks :=
                      (l2Networks reg1)(chainID customL2Network \<mapsto> customL2Network)\<rparr>)"
      by (rule addCustomNetwork_partner)
  }
qed

theorem registration_guards_witness:
  "(\<exists>e. addCustomChain initial_registry None duplicateL2Network
          = (Throws (ArbSdkError e), initial_registry))
   \<and> (\<exists>e. addCustomNetwork initial_registry (Some mainnet) orphanL2Network
          = (Throws (ArbSdkError e), initial_registry))
   \<and> (\<exists>e. addCustomNetwork initial_registry None duplicateL2Network
          = (Throws (ArbSdkError e), initial_registry))
   \<and> addCustomNetwork initial_registry None orphanL2Network =
        (Throws (ArbSdkError
           (''Network 555'' @ [CHR 0x27] @ ''s partner network, 999, not recognized'')),
         initial_registry\<lparr>l2Networks := (l2Networks initial_registry)(555 \<mapsto> orphanL2Network)\<rparr>)"
proof -
  have dup: "chains initial_registry (chainID duplicateL2Network) \<noteq> None"
    by (simp add: initial_registry_def l2Networks_entries_def duplicateL2Network_def
          arbitrumOne_def)
  have dup2: "l2Networks initial_registry (chainID duplicateL2Network) \<noteq> None"
    by (simp add: initial_registry_def l2Networks_entries_def duplicateL2Network_def
          arbitrumOne_def)
  have l1: "l1Networks initial_registry (chainID mainnet) \<noteq> None"
    by (simp add: initial_registry_def l1Networks_entries_def mainnet_def)
  have blk: "customL1Network_block initial_registry None = Inr initial_registry"
    by (simp add: customL1Network_block_def)
  have o1: "chainID orphanL2Network = 555" "partnerChainID orphanL2Network = 999"
           "isCustom orphanL2Network"
    by (simp_all add: orphanL2Network_def defaultLocalL2Network_def)
  have o2: "l2Networks initial_registry 555 = None" "l1Networks initial_registry 999 = None"
    by (simp_all add: initial_registry_def l2Networks_entries_def l1Networks_entries_def)
  have digits: "string_of_nat 555 = ''555''" "string_of_nat 999 = ''999''"
    by (simp_all add: string_of_nat.simps)
  note g1 = registration_guards [of None initial_registry duplicateL2Network None orphanL2Network]
  note g2 = registration_guards [of None initial_registry duplicateL2Network "Some mainnet"
              orphanL2Network]
  note g3 = registration_guards [of None initial_registry duplicateL2Network None
              duplicateL2Network]
  from g1 dup have a: "\<exists>e. addCustomChain initial_registry None duplicateL2Network
          = (Throws (ArbSdkError e), initial_registry)"
    by blast
  from g2 l1 have b: "\<exists>e. addCustomNetwork initial_registry (Some mainnet) orphanL2Network
          = (Throws (ArbSdkError e), initial_registry)"
    by blast
  from g3 blk dup2 have c: "\<exists>e. addCustomNetwork initial_registry None duplicateL2Network
          = (Throws (ArbSdkError e), initial_registry)"
    by blast
  from g1 blk o1 o2 digits
  have d: "addCustomNetwork initial_registry None orphanL2Network =
        (Throws (ArbSdkError
           (''Network 555'' @ [CHR 0x27] @ ''s partner network, 999, not recognized'')),
         initial_registry\<lparr>l2Networks := (l2Networks initial_registry)(555 \<mapsto> orphanL2Network)\<rparr>)"
    by simp
  from a b c d show ?thesis by blast
qed

section \<open>Searching the send events\<close>

text \<open>
  Claim C8. With an index in the batch supplied, \<^verbatim>\<open>getL2ToL1MessageLogs\<close> looks at the
  fetched events that carry this index: more than one is the error
  \<^verbatim>\<open>More than one indexed item found in batch.\<close>, exactly one is returned alone, none gives
  the empty list.
\<close>

theorem getL2ToL1MessageLogs_index:
  assumes "getEvents w l2Provider
             \<lparr>topic_destination = dest, topic_uniqueId = uid, topic_batchNumber = bn\<rparr> bf
           = Inr fetched"
      and "matching = filter (\<lambda>b. indexInBatch b = i) (map fe_event fetched)"
  shows "(length matching > 1 \<longrightarrow>
            getL2ToL1MessageLogs w l2Provider bf bn dest uid (Some i)
              = Inl (ArbTsError ''More than one indexed item found in batch.''))
         \<and> (\<forall>lg. matching = [lg] \<longrightarrow>
               getL2ToL1MessageLogs w l2Provider bf bn dest uid (Some i) = Inr [lg])
         \<and> (matching = [] \<longrightarrow>
               getL2ToL1MessageLogs w l2Provider bf bn dest uid (Some i) = Inr [])"
proof -
  have "getL2ToL1MessageLogs w l2Provider bf bn dest uid (Some i) =
          (if length matching = 1 then Inr matching
           else if length matching > 1
           then Inl (ArbTsError ''More than one indexed item found in batch.'')
           else Inr [])"
    unfolding getL2ToL1MessageLogs_def bindE_def Let_def assms by simp
  then show ?thesis by auto
qed

theorem getL2ToL1MessageLogs_index_witness:
  "getL2ToL1MessageLogs confirmed_world 20 (BlockNumber 0, BlockName ''latest'') None None None
     (Some 1) = Inl (ArbTsError ''More than one indexed item found in batch.'')
   \<and> getL2ToL1MessageLogs confirmed_world 20 (BlockNumber 0, BlockName ''latest'') None None None
     (Some 0) = Inr [withdrawal]
   \<and> getL2ToL1MessageLogs confirmed_world 20 (BlockNumber 0, BlockName ''latest'') None None None
     (Some 9) = Inr []"
proof -
  let ?fetched = "[\<lparr>fe_event = withdrawal, fe_transactionHash = ''0x01''\<rparr>,
                   \<lparr>fe_event = withdrawal6, fe_transactionHash = ''0x02''\<rparr>,
                   \<lparr>fe_event = withdrawal7, fe_transactionHash = ''0x03''\<rparr>]"
  have ev: "getEvents confirmed_world 20
              \<lparr>topic_destination = None, topic_uniqueId = None, topic_batchNumber = None\<rparr>
              (BlockNumber 0, BlockName ''latest'') = Inr ?fetched"
    by (simp add: confirmed_world_def)
  have m1: "[withdrawal6, withdrawal7]
              = filter (\<lambda>b. indexInBatch b = 1) (map fe_event ?fetched)"
    by (simp add: withdrawal_def withdrawal6_def withdrawal7_def)
  have m0: "[withdrawal] = filter (\<lambda>b. indexInBatch b = 0) (map fe_event ?fetched)"
    by (simp add: withdrawal_def withdrawal6_def withdrawal7_def)
  have m9: "[] = filter (\<lambda>b. indexInBatch b = 9) (map fe_event ?fetched)"
    by (simp add: withdrawal_def withdrawal6_def withdrawal7_def)
  from getL2ToL1MessageLogs_index [OF ev m1] getL2ToL1MessageLogs_index [OF ev m0]
       getL2ToL1MessageLogs_index [OF ev m9]
  show ?thesis by simp
qed

section \<open>Resolving the confirming root\<close>

lemma updateSendRoot_memoized:
  "truthy (sendRootHash r) \<Longrightarrow> updateSendRoot reg w l1p l2p r = Inr r"
  by (simp add: updateSendRoot_def)

lemma truthy_hexString [simp]: "truthy (Some (hexString h))"
  by (cases h) (simp add: truthy_def)

lemma hexString_nonempty [simp]: "hexString h \<noteq> []"
  by (cases h) simp

lemma updateSendRoot_logs:
  assumes "\<not> truthy (sendRootHash r)"
      and "await (getL2Network reg w (SoP (IsProvider l2p))) = Inr (ObjL2 n)"
      and "rollup_latestConfirmed w l1p (rollup (ethBridge n)) = Inr node"
      and "getBlockNumber w l1p = Inr cur"
      and "getLogs w l1p
             \<lparr>address = rollup (ethBridge n), fromBlock = max (cur - 172800) 0,
              toBlock = BlockName ''latest'', nodeNum_topic = node\<rparr> = Inr logs"
  shows "updateSendRoot reg w l1p l2p r =
     (if length logs \<noteq> 1 then Inl (JsError ''missing logs'')
      else
        bindE (eth_getBlockByHash w l2p (hexString (blockHash (hd logs)))) (\<lambda>l2Block.
          case l2Block of
            None \<Rightarrow> Inl (TypeError ''Cannot read properties of null'')
          | Some blk \<Rightarrow>
              if blk_sendRoot blk \<noteq> hexString (sendRoot (hd logs))
              then Inl (JsError ''send roots'')
              else if blk_sendCount blk > position (event r)
              then Inr (r\<lparr>sendRootSize := Some (blk_sendCount blk),
                          sendRootHash := Some (hexString (sendRoot (hd logs)))\<rparr>)
              else Inr r))"
  using assms by (simp add: updateSendRoot_def bindE_def Let_def split: sum.splits option.splits)

lemma updateSendRoot_mismatch:
  assumes "\<not> truthy (sendRootHash r)"
      and "await (getL2Network reg w (SoP (IsProvider l2p))) = Inr (ObjL2 n)"
      and "rollup_latestConfirmed w l1p (rollup (ethBridge n)) = Inr node"
      and "getBlockNumber w l1p = Inr cur"
      and "getLogs w l1p
             \<lparr>address = rollup (ethBridge n), fromBlock = max (cur - 172800) 0,
              toBlock = BlockName ''latest'', nodeNum_topic = node\<rparr> = Inr [lg]"
      and "eth_getBlockByHash w l2p (hexString (blockHash lg)) = Inr (Some blk)"
      and "blk_sendRoot blk \<noteq> hexString (sendRoot lg)"
  shows "updateSendRoot reg w l1p l2p r = Inl (JsError ''send roots'')"
  using assms(6,7) by (simp add: updateSendRoot_logs [OF assms(1-5)] bindE_def)

lemma updateSendRoot_cases:
  assumes "updateSendRoot reg w l1p l2p r = Inr r'"
  shows "r' = r \<or> (\<not> truthy (sendRootHash r) \<and>
           (\<exists>h n. r' = r\<lparr>sendRootSize := Some n, sendRootHash := Some (hexString h)\<rparr>
                  \<and> position (event r) < n))"
  using assms
  by (auto simp: updateSendRoot_def bindE_def Let_def
           split: if_splits sum.splits option.splits)

lemma updateSendRoot_keeps_event:
  assumes "updateSendRoot reg w l1p l2p r = Inr r'"
  shows "event r' = event r" "l1Provider r' = l1Provider r" "outboxAddress r' = outboxAddress r"
  using updateSendRoot_cases [OF assms] by auto

lemma status_of_failed_update:
  "updateSendRoot reg w (l1Provider r) l2p r = Inl e \<Longrightarrow> status reg w l2p r = (Inl e, r)"
  by (simp add: status_def)

lemma getOutboxProof_of_failed_update:
  "updateSendRoot reg w (l1Provider r) l2p r = Inl e
     \<Longrightarrow> getOutboxProof reg w l2p r = (Inl e, r)"
  by (simp add: getOutboxProof_def)

lemma status_memoized:
  assumes "truthy (sendRootHash r)"
  shows "status reg w l2p r =
           (bindE (outbox_spent w (l1Provider r) (outboxAddress r) (position (event r)))
              (\<lambda>spent. Inr (if spent then EXECUTED else CONFIRMED)), r)"
  using assms by (simp add: status_def updateSendRoot_memoized)

lemma status_outcomes:
  assumes "status reg w l2p r = (Inr st, r')"
  shows "st = UNCONFIRMED \<and> \<not> truthy (sendRootHash r')
         \<or> (st = CONFIRMED \<or> st = EXECUTED) \<and> truthy (sendRootHash r')"
  using assms
  by (auto simp: status_def bindE_def split: sum.splits if_splits)

lemma status_gives_update:
  assumes "fst (status reg w l2p r) = Inr st"
  shows "updateSendRoot reg w (l1Provider r) l2p r = Inr (snd (status reg w l2p r))
         \<and> (st = UNCONFIRMED \<and> \<not> truthy (sendRootHash (snd (status reg w l2p r)))
            \<or> (st = CONFIRMED \<or> st = EXECUTED)
               \<and> truthy (sendRootHash (snd (status reg w l2p r))))"
  using assms
  by (auto simp: status_def bindE_def split: sum.splits if_splits)

lemma status_resolved:
  assumes "\<not> truthy (sendRootHash r)"
      and "await (getL2Network reg w (SoP (IsProvider l2p))) = Inr (ObjL2 n)"
      and "rollup_latestConfirmed w (l1Provider r) (rollup (ethBridge n)) = Inr node"
      and "getBlockNumber w (l1Provider r) = Inr cur"
      and "getLogs w (l1Provider r)
             \<lparr>address = rollup (ethBridge n), fromBlock = max (cur - 172800) 0,
              toBlock = BlockName ''latest'', nodeNum_topic = node\<rparr> = Inr [lg]"
      and "eth_getBlockByHash w l2p (hexString (blockHash lg)) = Inr (Some blk)"
      and "blk_sendRoot blk = hexString (sendRoot lg)"
      and "position (event r) < blk_sendCount blk"
      and "outbox_spent w (l1Provider r) (outboxAddress r) (position (event r)) = Inr spent"
  shows "status reg w l2p r =
           (Inr (if spent then EXECUTED else CONFIRMED),
            r\<lparr>sendRootSize := Some (blk_sendCount blk),
              sendRootHash := Some (hexString (sendRoot lg))\<rparr>)"
  using assms(6-9) by (simp add: status_def updateSendRoot_logs [OF assms(1-5)] bindE_def)

lemma status_unresolved:
  assumes "\<not> truthy (sendRootHash r)"
      and "await (getL2Network reg w (SoP (IsProvider l2p))) = Inr (ObjL2 n)"
      and "rollup_latestConfirmed w (l1Provider r) (rollup (ethBridge n)) = Inr node"
      and "getBlockNumber w (l1Provider r) = Inr cur"
      and "getLogs w (l1Provider r)
             \<lparr>address = rollup (ethBridge n), fromBlock = max (cur - 172800) 0,
              toBlock = BlockName ''latest'', nodeNum_topic = node\<rparr> = Inr [lg]"
      and "eth_getBlockByHash w l2p (hexString (blockHash lg)) = Inr (Some blk)"
      and "blk_sendRoot blk = hexString (sendRoot lg)"
      and "blk_sendCount blk \<le> position (event r)"
  shows "status reg w l2p r = (Inr UNCONFIRMED, r)"
  using assms(1,6-8) by (simp add: status_def updateSendRoot_logs [OF assms(1-5)] bindE_def)

lemma getOutboxProof_memoized:
  assumes "truthy (sendRootHash r)" and "sendRootSize r = Some n"
  shows "getOutboxProof reg w l2p r =
           (bindE (callConstructOutboxProof w l2p n (position (event r)))
              (\<lambda>params. Inr (proof_hashes params)), r)"
  using assms by (simp add: getOutboxProof_def updateSendRoot_memoized)

lemma execute_unfold:
  "execute reg w l2p r =
     (case fst (status reg w l2p r) of
        Inl e \<Rightarrow> (Inl e, snd (status reg w l2p r))
      | Inr st \<Rightarrow>
          if st \<noteq> CONFIRMED
          then (Inl (ArbTsError (''Cannot execute message. Status is: ''
                  @ string_of_nat (status_number st) @ '' but must be ''
                  @ string_of_nat (status_number CONFIRMED) @ ''.'')), snd (status reg w l2p r))
          else
            (case getOutboxProof reg w l2p (snd (status reg w l2p r)) of
               (Inl e, r2) \<Rightarrow> (Inl e, r2)
             | (Inr proof_found, r2) \<Rightarrow>
                 (outbox_executeTransaction w (l1Signer r2) (outboxAddress r2)
                    \<lparr>arg_proof = proof_found,
                     arg_index = position (event r2),
                     arg_l2Sender = caller (event r2),
                     arg_to = destination (event r2),
                     arg_l2Block = arbBlockNum (event r2),
                     arg_l1Block = ethBlockNum (event r2),
                     arg_l2Timestamp = timestamp (event r2),
                     arg_value = callvalue (event r2),
                     arg_data = data (event r2)\<rparr>, r2)))"
  by (cases "status reg w l2p r") (simp add: execute_def split: sum.splits)

lemma cache_inv_new:
  "cache_inv (new_L2ToL1MessageReader l1p a ev)" "cache_inv (new_L2ToL1MessageWriter s a ev)"
  by (simp_all add: cache_inv_def new_L2ToL1MessageReader_def new_L2ToL1MessageWriter_def)

lemma cache_inv_updateSendRoot:
  assumes "cache_inv r" and "updateSendRoot reg w l1p l2p r = Inr r'"
  shows "cache_inv r'"
  using updateSendRoot_cases [OF assms(2)] assms(1)
  by (auto simp: cache_inv_def)

lemma cache_inv_truthy:
  assumes "cache_inv r"
  shows "truthy (sendRootHash r) \<longleftrightarrow> (\<exists>n. sendRootSize r = Some n \<and> position (event r) < n)"
    and "\<not> truthy (sendRootHash r) \<longleftrightarrow> sendRootSize r = None"
  using assms by (auto simp: cache_inv_def truthy_def split: option.splits)

lemma length_status_calls [simp]: "length (status_calls calls r) = length calls"
  by (induction calls arbitrary: r) (auto split: prod.splits)

lemma status_calls_memoized:
  assumes "truthy (sendRootHash r)" and "k < length calls"
  shows "status_calls calls r ! k =
           (bindE (outbox_spent (fst (snd (calls ! k))) (l1Provider r) (outboxAddress r)
                     (position (event r)))
              (\<lambda>spent. Inr (if spent then EXECUTED else CONFIRMED)), r)"
  using assms
proof (induction calls arbitrary: k)
  case Nil
  then show ?case by simp
next
  case (Cons c calls)
  obtain reg w l2p where c: "c = (reg, w, l2p)" by (cases c) auto
  show ?case
  proof (cases k)
    case 0
    then show ?thesis by (simp add: c status_memoized [OF Cons.prems(1)])
  next
    case (Suc k')
    with Cons show ?thesis by (simp add: c status_memoized [OF Cons.prems(1)])
  qed
qed

lemma status_calls_later:
  assumes "i < j" and "j < length calls"
      and "fst (status_calls calls r ! i) = Inr CONFIRMED
           \<or> fst (status_calls calls r ! i) = Inr EXECUTED"
  shows "truthy (sendRootHash (snd (status_calls calls r ! i)))
         \<and> status_calls calls r ! j =
           (bindE (outbox_spent (fst (snd (calls ! j))) (l1Provider r) (outboxAddress r)
                     (position (event r)))
              (\<lambda>spent. Inr (if spent then EXECUTED else CONFIRMED)),
            snd (status_calls calls r ! i))"
  using assms
proof (induction calls arbitrary: r i j)
  case Nil
  then show ?case by simp
next
  case (Cons c calls)
  obtain reg w l2p where c: "c = (reg, w, l2p)" by (cases c) auto
  obtain out r' where s: "status reg w l2p r = (out, r')" by (cases "status reg w l2p r") auto
  have tail: "status_calls (c # calls) r = (out, r') # status_calls calls r'"
    by (simp add: c s)
  from Cons.prems(1) obtain j' where j: "j = Suc j'" by (cases j) auto
  have same: "l1Provider r' = l1Provider r" "outboxAddress r' = outboxAddress r"
             "event r' = event r"
    using s updateSendRoot_cases [of reg w "l1Provider r" l2p r]
    by (auto simp: status_def split: sum.splits if_splits)
  show ?case
  proof (cases i)
    case 0
    with Cons.prems(3) tail have "out = Inr CONFIRMED \<or> out = Inr EXECUTED" by simp
    with s status_outcomes [of reg w l2p r _ r'] have memo: "truthy (sendRootHash r')"
      by auto
    from Cons.prems(2) j have "j' < length calls" by simp
    from status_calls_memoized [OF memo this] memo show ?thesis
      by (simp add: tail j 0 same)
  next
    case (Suc i')
    with Cons.prems j have "i' < j'" "j' < length calls"
      "fst (status_calls calls r' ! i') = Inr CONFIRMED
       \<or> fst (status_calls calls r' ! i') = Inr EXECUTED"
      by (simp_all add: tail)
    from Cons.IH [OF this] show ?thesis
      by (simp add: tail j Suc same)
  qed
qed

section \<open>The scenario of the specification, run\<close>

lemma initial_registry_arbitrumOne:
  "or_else (l2Networks initial_registry 42161) (chains initial_registry 42161)
     = Some arbitrumOne"
  by (simp add: or_else_def initial_registry_def l2Networks_entries_def)

lemma initial_registry_arbitrumNova:
  "or_else (l2Networks initial_registry 42170) (chains initial_registry 42170)
     = Some arbitrumNova"
  by (simp add: or_else_def initial_registry_def l2Networks_entries_def)

lemma await_getL2Network_arbitrumOne:
  assumes "getProviderOrThrow w (IsProvider 20) = Inr 20"
      and "provider_getNetwork w 20 = Inr 42161"
  shows "await (getL2Network initial_registry w (SoP (IsProvider 20)))
           = Inr (ObjL2 arbitrumOne)"
  by (simp add: await_getL2Network resolveChainID_provider [OF assms] bindE_def
        initial_registry_arbitrumOne)

lemma withdrawal_reader_simps:
  "sendRootHash withdrawal_reader = None" "sendRootSize withdrawal_reader = None"
  "l1Provider withdrawal_reader = 10" "event withdrawal_reader = withdrawal"
  "outboxAddress withdrawal_reader = outbox (ethBridge arbitrumOne)"
  "position withdrawal = 5"
  "\<not> truthy (sendRootHash withdrawal_reader)"
  by (simp_all add: withdrawal_reader_def new_L2ToL1MessageReader_def withdrawal_def truthy_def)

lemma withdrawal_reader_cached_simps:
  "truthy (sendRootHash withdrawal_reader_cached)"
  "l1Provider withdrawal_reader_cached = 10"
  "event withdrawal_reader_cached = withdrawal"
  "outboxAddress withdrawal_reader_cached = outbox (ethBridge arbitrumOne)"
  by (simp_all add: withdrawal_reader_cached_def withdrawal_reader_simps truthy_def)

lemma cache_inv_withdrawal_reader: "cache_inv withdrawal_reader"
  by (simp add: withdrawal_reader_def cache_inv_new)

lemma withdrawal_writer_simps:
  "\<not> truthy (sendRootHash withdrawal_writer)" "l1Provider withdrawal_writer = 10"
  "position (event withdrawal_writer) = 5"
  "outboxAddress withdrawal_writer = outbox (ethBridge arbitrumOne)"
  "event withdrawal_writer = withdrawal"
  "l1Signer withdrawal_writer = \<lparr>signer_id = 1, signer_provider = 10\<rparr>"
  by (simp_all add: withdrawal_writer_def new_L2ToL1MessageWriter_def truthy_def
        withdrawal_def)

lemma arbitrumOne_scenario:
  fixes w :: world
  assumes "getProviderOrThrow w = getProviderOrThrow confirmed_world"
      and "provider_getNetwork w = provider_getNetwork confirmed_world"
      and "rollup_latestConfirmed w = rollup_latestConfirmed confirmed_world"
      and "getBlockNumber w = getBlockNumber confirmed_world"
  shows "await (getL2Network initial_registry w (SoP (IsProvider 20)))
           = Inr (ObjL2 arbitrumOne)"
    and "rollup_latestConfirmed w (l1Provider withdrawal_reader)
           (rollup (ethBridge arbitrumOne)) = Inr 7"
    and "getBlockNumber w (l1Provider withdrawal_reader) = Inr 18000000"
proof -
  show "await (getL2Network initial_registry w (SoP (IsProvider 20)))
           = Inr (ObjL2 arbitrumOne)"
    by (rule await_getL2Network_arbitrumOne) (simp_all add: assms confirmed_world_def)
qed (simp_all add: assms confirmed_world_def withdrawal_reader_simps)

lemma node7_log:
  fixes w :: world
  assumes "getLogs w = getLogs confirmed_world"
  shows "getLogs w (l1Provider withdrawal_reader)
           \<lparr>address = rollup (ethBridge arbitrumOne), fromBlock = max (18000000 - 172800) 0,
            toBlock = BlockName ''latest'', nodeNum_topic = 7\<rparr> = Inr [node7]"
  by (simp add: assms confirmed_world_def withdrawal_reader_simps)

lemma node7_block:
  "eth_getBlockByHash confirmed_world 20 (hexString (blockHash node7))
     = Inr (Some \<lparr>blk_sendRoot = ''0x5e4d'', blk_sendCount = 10\<rparr>)"
  "eth_getBlockByHash executed_world 20 (hexString (blockHash node7))
     = Inr (Some \<lparr>blk_sendRoot = ''0x5e4d'', blk_sendCount = 10\<rparr>)"
  "eth_getBlockByHash unconfirmed_world 20 (hexString (blockHash node7))
     = Inr (Some \<lparr>blk_sendRoot = ''0x5e4d'', blk_sendCount = 5\<rparr>)"
  by (simp_all add: confirmed_world_def executed_world_def unconfirmed_world_def node7_def)

lemma node7_root:
  "blk_sendRoot \<lparr>blk_sendRoot = ''0x5e4d'', blk_sendCount = k\<rparr> = hexString (sendRoot node7)"
  by (simp add: node7_def)

lemma no_log_window:
  "getLogs no_log_world (l1Provider withdrawal_reader)
     \<lparr>address = rollup (ethBridge arbitrumOne), fromBlock = max (18000000 - 172800) 0,
      toBlock = BlockName ''latest'', nodeNum_topic = 7\<rparr> = Inr []"
  by (simp add: no_log_world_def)

lemma same_as_confirmed_no_log:
  "getProviderOrThrow no_log_world = getProviderOrThrow confirmed_world"
  "provider_getNetwork no_log_world = provider_getNetwork confirmed_world"
  "rollup_latestConfirmed no_log_world = rollup_latestConfirmed confirmed_world"
  "getBlockNumber no_log_world = getBlockNumber confirmed_world"
  by (simp_all add: no_log_world_def)

lemma mismatch_world_facts:
  "await (getL2Network initial_registry mismatch_world (SoP (IsProvider 20)))
     = Inr (ObjL2 arbitrumOne)"
  "rollup_latestConfirmed mismatch_world (l1Provider withdrawal_reader)
     (rollup (ethBridge arbitrumOne)) = Inr 7"
  "getBlockNumber mismatch_world (l1Provider withdrawal_reader) = Inr 18000000"
  "getLogs mismatch_world (l1Provider withdrawal_reader)
     \<lparr>address = rollup (ethBridge arbitrumOne), fromBlock = max (18000000 - 172800) 0,
      toBlock = BlockName ''latest'', nodeNum_topic = 7\<rparr> = Inr [node7]"
  "eth_getBlockByHash mismatch_world 20 (hexString (blockHash node7))
     = Inr (Some \<lparr>blk_sendRoot = ''0xdead'', blk_sendCount = 10\<rparr>)"
  "blk_sendRoot \<lparr>blk_sendRoot = ''0xdead'', blk_sendCount = 10\<rparr> \<noteq> hexString (sendRoot node7)"
proof -
  have same:
    "getProviderOrThrow mismatch_world = getProviderOrThrow confirmed_world"
    "provider_getNetwork mismatch_world = provider_getNetwork confirmed_world"
    "rollup_latestConfirmed mismatch_world = rollup_latestConfirmed confirmed_world"
    "getBlockNumber mismatch_world = getBlockNumber confirmed_world"
    "getLogs mismatch_world = getLogs confirmed_world"
    by (simp_all add: mismatch_world_def)
  from arbitrumOne_scenario [OF same(1-4)] node7_log [OF same(5)]
  show "await (getL2Network initial_registry mismatch_world (SoP (IsProvider 20)))
     = Inr (ObjL2 arbitrumOne)"
  "rollup_latestConfirmed mismatch_world (l1Provider withdrawal_reader)
     (rollup (ethBridge arbitrumOne)) = Inr 7"
  "getBlockNumber mismatch_world (l1Provider withdrawal_reader) = Inr 18000000"
  "getLogs mismatch_world (l1Provider withdrawal_reader)
     \<lparr>address = rollup (ethBridge arbitrumOne), fromBlock = max (18000000 - 172800) 0,
      toBlock = BlockName ''latest'', nodeNum_topic = 7\<rparr> = Inr [node7]"
    by simp_all
qed (simp_all add: mismatch_world_def node7_def)

lemma mismatch_world_nova_facts:
  "await (getL2Network initial_registry mismatch_world_nova (SoP (IsProvider 20)))
     = Inr (ObjL2 arbitrumNova)"
  "rollup_latestConfirmed mismatch_world_nova (l1Provider withdrawal_reader)
     (rollup (ethBridge arbitrumNova)) = Inr 9"
  "getBlockNumber mismatch_world_nova (l1Provider withdrawal_reader) = Inr 18000000"
  "getLogs mismatch_world_nova (l1Provider withdrawal_reader)
     \<lparr>address = rollup (ethBridge arbitrumNova), fromBlock = max (18000000 - 172800) 0,
      toBlock = BlockName ''latest'', nodeNum_topic = 9\<rparr> = Inr [node9]"
  "eth_getBlockByHash mismatch_world_nova 20 (hexString (blockHash node9))
     = Inr (Some \<lparr>blk_sendRoot = ''0xbeef'', blk_sendCount = 10\<rparr>)"
  "blk_sendRoot \<lparr>blk_sendRoot = ''0xbeef'', blk_sendCount = 10\<rparr> \<noteq> hexString (sendRoot node9)"
proof -
  have "resolveChainID mismatch_world_nova (SoP (IsProvider 20)) = Inr 42170"
    by (rule resolveChainID_provider [where p' = 20])
       (simp_all add: mismatch_world_nova_def confirmed_world_def)
  then show "await (getL2Network initial_registry mismatch_world_nova (SoP (IsProvider 20)))
     = Inr (ObjL2 arbitrumNova)"
    by (simp add: await_getL2Network bindE_def initial_registry_arbitrumNova)
qed (simp_all add: mismatch_world_nova_def confirmed_world_def node9_def
       withdrawal_reader_simps)

lemma withdrawal_scenario:
  fixes w :: world and r :: "'a L2ToL1MessageReader_scheme"
  assumes "getProviderOrThrow w = getProviderOrThrow confirmed_world"
      and "provider_getNetwork w = provider_getNetwork confirmed_world"
      and "rollup_latestConfirmed w = rollup_latestConfirmed confirmed_world"
      and "getBlockNumber w = getBlockNumber confirmed_world"
      and "getLogs w = getLogs confirmed_world"
      and "eth_getBlockByHash w 20 (hexString (blockHash node7))
             = Inr (Some \<lparr>blk_sendRoot = ''0x5e4d'', blk_sendCount = k\<rparr>)"
      and "\<not> truthy (sendRootHash r)" and "l1Provider r = 10" and "position (event r) = 5"
  shows "5 < k \<Longrightarrow> outbox_spent w 10 (outboxAddress r) 5 = Inr spent
           \<Longrightarrow> status initial_registry w 20 r =
                 (Inr (if spent then EXECUTED else CONFIRMED),
                  r\<lparr>sendRootSize := Some k, sendRootHash := Some ''0x5e4d''\<rparr>)"
    and "k \<le> 5 \<Longrightarrow> status initial_registry w 20 r = (Inr UNCONFIRMED, r)"
proof -
  have net: "await (getL2Network initial_registry w (SoP (IsProvider 20)))
               = Inr (ObjL2 arbitrumOne)"
    by (rule await_getL2Network_arbitrumOne) (simp_all add: assms confirmed_world_def)
  have node: "rollup_latestConfirmed w (l1Provider r) (rollup (ethBridge arbitrumOne)) = Inr 7"
    by (simp add: assms confirmed_world_def)
  have cur: "getBlockNumber w (l1Provider r) = Inr 18000000"
    by (simp add: assms confirmed_world_def)
  have logs: "getLogs w (l1Provider r)
           \<lparr>address = rollup (ethBridge arbitrumOne), fromBlock = max (18000000 - 172800) 0,
            toBlock = BlockName ''latest'', nodeNum_topic = 7\<rparr> = Inr [node7]"
    by (simp add: assms confirmed_world_def)
  note hyps = assms(7) net node cur logs assms(6) node7_root
  show "status initial_registry w 20 r =
                 (Inr (if spent then EXECUTED else CONFIRMED),
                  r\<lparr>sendRootSize := Some k, sendRootHash := Some ''0x5e4d''\<rparr>)"
    if "5 < k" "outbox_spent w 10 (outboxAddress r) 5 = Inr spent"
    using status_resolved [OF hyps, of spent] that
    by (simp add: assms node7_def)
  show "status initial_registry w 20 r = (Inr UNCONFIRMED, r)" if "k \<le> 5"
    using status_unresolved [OF hyps] that by (simp add: assms)
qed

lemma status_in_confirmed_world:
  "status initial_registry confirmed_world 20 withdrawal_reader
     = (Inr CONFIRMED, withdrawal_reader_cached)"
proof -
  have spent: "outbox_spent confirmed_world (l1Provider withdrawal_reader)
                 (outboxAddress withdrawal_reader) (position (event withdrawal_reader))
               = Inr False"
    by (simp add: confirmed_world_def)
  have pos: "position (event withdrawal_reader)
               < blk_sendCount \<lparr>blk_sendRoot = ''0x5e4d'', blk_sendCount = 10\<rparr>"
    by (simp add: withdrawal_reader_simps)
  from status_resolved
         [OF withdrawal_reader_simps(7) arbitrumOne_scenario [OF refl refl refl refl]
             node7_log [OF refl] node7_block(1) node7_root pos spent]
  show ?thesis by (simp add: withdrawal_reader_cached_def node7_def)
qed

lemma status_in_executed_world:
  "status initial_registry executed_world 20 withdrawal_reader
     = (Inr EXECUTED, withdrawal_reader_cached)"
proof -
  have same:
    "getProviderOrThrow executed_world = getProviderOrThrow confirmed_world"
    "provider_getNetwork executed_world = provider_getNetwork confirmed_world"
    "rollup_latestConfirmed executed_world = rollup_latestConfirmed confirmed_world"
    "getBlockNumber executed_world = getBlockNumber confirmed_world"
    "getLogs executed_world = getLogs confirmed_world"
    by (simp_all add: executed_world_def)
  have spent: "outbox_spent executed_world (l1Provider withdrawal_reader)
                 (outboxAddress withdrawal_reader) (position (event withdrawal_reader))
               = Inr True"
    by (simp add: executed_world_def withdrawal_reader_simps)
  have pos: "position (event withdrawal_reader)
               < blk_sendCount \<lparr>blk_sendRoot = ''0x5e4d'', blk_sendCount = 10\<rparr>"
    by (simp add: withdrawal_reader_simps)
  from status_resolved
         [OF withdrawal_reader_simps(7) arbitrumOne_scenario [OF same(1-4)]
             node7_log [OF same(5)] node7_block(2) node7_root pos spent]
  show ?thesis by (simp add: withdrawal_reader_cached_def node7_def)
qed

lemma status_in_unconfirmed_world:
  "status initial_registry unconfirmed_world 20 withdrawal_reader
     = (Inr UNCONFIRMED, withdrawal_reader)"
proof -
  have same:
    "getProviderOrThrow unconfirmed_world = getProviderOrThrow confirmed_world"
    "provider_getNetwork unconfirmed_world = provider_getNetwork confirmed_world"
    "rollup_latestConfirmed unconfirmed_world = rollup_latestConfirmed confirmed_world"
    "getBlockNumber unconfirmed_world = getBlockNumber confirmed_world"
    "getLogs unconfirmed_world = getLogs confirmed_world"
    by (simp_all add: unconfirmed_world_def)
  have pos: "blk_sendCount \<lparr>blk_sendRoot = ''0x5e4d'', blk_sendCount = 5\<rparr>
               \<le> position (event withdrawal_reader)"
    by (simp add: withdrawal_reader_simps)
  show ?thesis
    by (rule status_unresolved
               [OF withdrawal_reader_simps(7) arbitrumOne_scenario [OF same(1-4)]
                   node7_log [OF same(5)] node7_block(3) node7_root pos])
qed

lemma writer_status:
  "status initial_registry confirmed_world 20 withdrawal_writer =
     (Inr CONFIRMED,
      withdrawal_writer\<lparr>sendRootSize := Some 10, sendRootHash := Some ''0x5e4d''\<rparr>)"
  "status initial_registry executed_world 20 withdrawal_writer =
     (Inr EXECUTED,
      withdrawal_writer\<lparr>sendRootSize := Some 10, sendRootHash := Some ''0x5e4d''\<rparr>)"
  "status initial_registry unconfirmed_world 20 withdrawal_writer =
     (Inr UNCONFIRMED, withdrawal_writer)"
proof -
  have c: "outbox_spent confirmed_world 10 (outboxAddress withdrawal_writer) 5 = Inr False"
    by (simp add: confirmed_world_def)
  have e: "outbox_spent executed_world 10 (outboxAddress withdrawal_writer) 5 = Inr True"
    by (simp add: executed_world_def)
  show "status initial_registry confirmed_world 20 withdrawal_writer =
     (Inr CONFIRMED,
      withdrawal_writer\<lparr>sendRootSize := Some 10, sendRootHash := Some ''0x5e4d''\<rparr>)"
    using withdrawal_scenario(1)
            [OF refl refl refl refl refl node7_block(1) withdrawal_writer_simps(1-3) _ c]
    by simp
  show "status initial_registry executed_world 20 withdrawal_writer =
     (Inr EXECUTED,
      withdrawal_writer\<lparr>sendRootSize := Some 10, sendRootHash := Some ''0x5e4d''\<rparr>)"
    using withdrawal_scenario(1)
            [OF _ _ _ _ _ node7_block(2) withdrawal_writer_simps(1-3) _ e]
    by (simp add: executed_world_def)
  show "status initial_registry unconfirmed_world 20 withdrawal_writer =
     (Inr UNCONFIRMED, withdrawal_writer)"
    using withdrawal_scenario(2)
            [OF _ _ _ _ _ node7_block(3) withdrawal_writer_simps(1-3)]
    by (simp add: unconfirmed_world_def)
qed

lemma execute_in_confirmed_world:
  "fst (execute initial_registry confirmed_world 20 withdrawal_writer) = Inr ''0x7e57''"
proof -
  let ?r1 = "withdrawal_writer\<lparr>sendRootSize := Some 10, sendRootHash := Some ''0x5e4d''\<rparr>"
  have memo: "truthy (sendRootHash ?r1)" "sendRootSize ?r1 = Some 10"
    by (simp_all add: truthy_def)
  have "getOutboxProof initial_registry confirmed_world 20 ?r1
          = (Inr [''0xaa'', ''0xbb'', ''0xcc''], ?r1)"
    by (simp add: getOutboxProof_memoized [OF memo] callConstructOutboxProof_def toNumber_def
          bindE_def withdrawal_writer_simps(2-6) withdrawal_def confirmed_world_def)
  moreover have "outbox_executeTransaction confirmed_world s a args = Inr ''0x7e57''"
    for s a args
    by (simp add: confirmed_world_def)
  ultimately show ?thesis
    by (simp add: execute_unfold writer_status)
qed

section \<open>The status of a message\<close>

text \<open>
  Claim C1. On a message whose confirming root is not cached yet (as every message built
  from an event is), when the lookups succeed (the L2 network is recognised, the rollup
  names its latest confirmed node, exactly one \<^verbatim>\<open>NodeConfirmed\<close> log of that node lies in the
  window, and the L2 block of its block hash reports the committed send root),
  \<^verbatim>\<open>status()\<close> compares the position with the send count of that block: below it the
  answer is \<^verbatim>\<open>EXECUTED\<close> when the outbox reports the position spent and \<^verbatim>\<open>CONFIRMED\<close>
  otherwise; at or above it the answer is \<^verbatim>\<open>UNCONFIRMED\<close>.
\<close>

theorem status_compares_position_with_send_count:
  assumes "\<not> truthy (sendRootHash r)"
      and "await (getL2Network reg w (SoP (IsProvider l2p))) = Inr (ObjL2 n)"
      and "rollup_latestConfirmed w (l1Provider r) (rollup (ethBridge n)) = Inr node"
      and "getBlockNumber w (l1Provider r) = Inr cur"
      and "getLogs w (l1Provider r)
             \<lparr>address = rollup (ethBridge n), fromBlock = max (cur - 172800) 0,
              toBlock = BlockName ''latest'', nodeNum_topic = node\<rparr> = Inr [lg]"
      and "eth_getBlockByHash w l2p (hexString (blockHash lg)) = Inr (Some blk)"
      and "blk_sendRoot blk = hexString (sendRoot lg)"
  shows "(position (event r) < blk_sendCount blk \<longrightarrow>
            (\<forall>spent. outbox_spent w (l1Provider r) (outboxAddress r) (position (event r))
                       = Inr spent
               \<longrightarrow> fst (status reg w l2p r) = Inr (if spent then EXECUTED else CONFIRMED)))
         \<and> (blk_sendCount blk \<le> position (event r) \<longrightarrow>
               fst (status reg w l2p r) = Inr UNCONFIRMED)"
  using assms(1) assms(6,7)
  by (auto simp: status_def updateSendRoot_logs [OF assms(1-5)] bindE_def)

theorem status_compares_position_with_send_count_witness:
  "fst (status initial_registry confirmed_world 20 withdrawal_reader) = Inr CONFIRMED
   \<and> fst (status initial_registry executed_world 20 withdrawal_reader) = Inr EXECUTED
   \<and> fst (status initial_registry unconfirmed_world 20 withdrawal_reader) = Inr UNCONFIRMED"
proof -
  note r = withdrawal_reader_simps
  have spent: "outbox_spent confirmed_world (l1Provider withdrawal_reader)
                 (outboxAddress withdrawal_reader) (position (event withdrawal_reader))
               = Inr False"
              "outbox_spent executed_world (l1Provider withdrawal_reader)
                 (outboxAddress withdrawal_reader) (position (event withdrawal_reader))
               = Inr True"
    by (simp_all add: confirmed_world_def executed_world_def r)
  have same_e:
    "getProviderOrThrow executed_world = getProviderOrThrow confirmed_world"
    "provider_getNetwork executed_world = provider_getNetwork confirmed_world"
    "rollup_latestConfirmed executed_world = rollup_latestConfirmed confirmed_world"
    "getBlockNumber executed_world = getBlockNumber confirmed_world"
    "getLogs executed_world = getLogs confirmed_world"
    by (simp_all add: executed_world_def)
  have same_u:
    "getProviderOrThrow unconfirmed_world = getProviderOrThrow confirmed_world"
    "provider_getNetwork unconfirmed_world = provider_getNetwork confirmed_world"
    "rollup_latestConfirmed unconfirmed_world = rollup_latestConfirmed confirmed_world"
    "getBlockNumber unconfirmed_world = getBlockNumber confirmed_world"
    "getLogs unconfirmed_world = getLogs confirmed_world"
    by (simp_all add: unconfirmed_world_def)
  have c: "fst (status initial_registry confirmed_world 20 withdrawal_reader) = Inr CONFIRMED"
    using status_compares_position_with_send_count
            [OF r(7) arbitrumOne_scenario [OF refl refl refl refl] node7_log [OF refl]
                node7_block(1) node7_root] spent(1)
    by (auto simp: r)
  have e: "fst (status initial_registry executed_world 20 withdrawal_reader) = Inr EXECUTED"
    using status_compares_position_with_send_count
            [OF r(7) arbitrumOne_scenario [OF same_e(1-4)] node7_log [OF same_e(5)]
                node7_block(2) node7_root] spent(2)
    by (auto simp: r)
  have u: "fst (status initial_registry unconfirmed_world 20 withdrawal_reader)
             = Inr UNCONFIRMED"
    using status_compares_position_with_send_count
            [OF r(7) arbitrumOne_scenario [OF same_u(1-4)] node7_log [OF same_u(5)]
                node7_block(3) node7_root]
    by (auto simp: r)
  from c e u show ?thesis by simp
qed

section \<open>No confirmed log in the window\<close>

text \<open>
  Claim C2, as stated, fails: with no \<^verbatim>\<open>NodeConfirmed\<close> log in the window, \<^verbatim>\<open>updateSendRoot\<close>
  throws \<^verbatim>\<open>Error('missing logs')\<close> and \<^verbatim>\<open>status()\<close> passes the throw on.
\<close>

theorem status_without_log_throws_at_block_18000000:
  "status initial_registry no_log_world 20 withdrawal_reader
     = (Inl (JsError ''missing logs''), withdrawal_reader)
   \<and> fst (status initial_registry no_log_world 20 withdrawal_reader) \<noteq> Inr UNCONFIRMED"
proof -
  have "updateSendRoot initial_registry no_log_world (l1Provider withdrawal_reader) 20
          withdrawal_reader = Inl (JsError ''missing logs'')"
    using updateSendRoot_logs
            [OF withdrawal_reader_simps(7) arbitrumOne_scenario [OF same_as_confirmed_no_log]
                no_log_window]
    by simp
  then show ?thesis by (simp add: status_of_failed_update)
qed

text \<open>
  Claim C2, amended. On a message whose confirming root is not cached yet, when the L2
  network is recognised and the rollup names its latest confirmed node, but no
  \<^verbatim>\<open>NodeConfirmed\<close> log of that node is found from block \<open>max (currentBlock - 172800) 0\<close>
  on, \<^verbatim>\<open>status()\<close> throws \<^verbatim>\<open>Error('missing logs')\<close> and leaves the message as it was; it
  does not return \<^verbatim>\<open>UNCONFIRMED\<close>.
\<close>

theorem status_without_confirmed_log_throws:
  assumes "\<not> truthy (sendRootHash r)"
      and "await (getL2Network reg w (SoP (IsProvider l2p))) = Inr (ObjL2 n)"
      and "rollup_latestConfirmed w (l1Provider r) (rollup (ethBridge n)) = Inr node"
      and "getBlockNumber w (l1Provider r) = Inr cur"
      and "getLogs w (l1Provider r)
             \<lparr>address = rollup (ethBridge n), fromBlock = max (cur - 172800) 0,
              toBlock = BlockName ''latest'', nodeNum_topic = node\<rparr> = Inr []"
  shows "status reg w l2p r = (Inl (JsError ''missing logs''), r)"
  by (rule status_of_failed_update) (simp add: updateSendRoot_logs [OF assms])

theorem status_without_confirmed_log_throws_witness:
  "status initial_registry young_chain_world 20 withdrawal_reader
     = (Inl (JsError ''missing logs''), withdrawal_reader)"
proof -
  have same:
    "getProviderOrThrow young_chain_world = getProviderOrThrow confirmed_world"
    "provider_getNetwork young_chain_world = provider_getNetwork confirmed_world"
    by (simp_all add: young_chain_world_def)
  have net: "await (getL2Network initial_registry young_chain_world (SoP (IsProvider 20)))
               = Inr (ObjL2 arbitrumOne)"
    by (rule await_getL2Network_arbitrumOne) (simp_all add: same confirmed_world_def)
  have node: "rollup_latestConfirmed young_chain_world (l1Provider withdrawal_reader)
                (rollup (ethBridge arbitrumOne)) = Inr 7"
    by (simp add: young_chain_world_def confirmed_world_def withdrawal_reader_simps)
  have cur: "getBlockNumber young_chain_world (l1Provider withdrawal_reader) = Inr 100"
    by (simp add: young_chain_world_def)
  have logs: "getLogs young_chain_world (l1Provider withdrawal_reader)
     \<lparr>address = rollup (ethBridge arbitrumOne), fromBlock = max (100 - 172800) 0,
      toBlock = BlockName ''latest'', nodeNum_topic = 7\<rparr> = Inr []"
    by (simp add: young_chain_world_def)
  show ?thesis
    by (rule status_without_confirmed_log_throws
               [OF withdrawal_reader_simps(7) net node cur logs])
qed

section \<open>The consistency check of the send root\<close>

text \<open>
  Claim C4, as stated, fails in its second half: the error raised on a mismatch is
  \<^verbatim>\<open>Error('send roots')\<close> whatever the chain, the assertion and the block are. Here the
  mismatch is on Arbitrum One (chain 42161) at node 7 and block \<^verbatim>\<open>0xb10c\<close>, and on
  Arbitrum Nova (chain 42170) at node 9 and block \<^verbatim>\<open>0xf00d\<close>; both calls fail with the same
  error value.
\<close>

theorem send_root_error_carries_no_context:
  "fst (status initial_registry mismatch_world 20 withdrawal_reader)
     = Inl (JsError ''send roots'')
   \<and> fst (status initial_registry mismatch_world_nova 20 withdrawal_reader)
     = Inl (JsError ''send roots'')
   \<and> provider_getNetwork mismatch_world 20 = Inr 42161
   \<and> provider_getNetwork mismatch_world_nova 20 = Inr 42170"
proof -
  have "updateSendRoot initial_registry mismatch_world (l1Provider withdrawal_reader) 20
          withdrawal_reader = Inl (JsError ''send roots'')"
    by (rule updateSendRoot_mismatch [OF withdrawal_reader_simps(7) mismatch_world_facts])
  moreover
  have "updateSendRoot initial_registry mismatch_world_nova (l1Provider withdrawal_reader) 20
          withdrawal_reader = Inl (JsError ''send roots'')"
    by (rule updateSendRoot_mismatch [OF withdrawal_reader_simps(7) mismatch_world_nova_facts])
  ultimately show ?thesis
    by (simp add: status_of_failed_update mismatch_world_def mismatch_world_nova_def
          confirmed_world_def)
qed

text \<open>
  Claim C4, amended. After fetching the block the assertion commits to, \<^verbatim>\<open>updateSendRoot\<close>
  compares the send root the block reports with the one in the \<^verbatim>\<open>NodeConfirmed\<close> log; on a
  mismatch it throws \<^verbatim>\<open>Error('send roots')\<close>, so \<^verbatim>\<open>status()\<close> and \<^verbatim>\<open>getOutboxProof()\<close> fail with
  that error and cache nothing. The error is this fixed message: it names neither the
  chain nor the assertion nor the block.
\<close>

theorem send_root_mismatch_is_fatal:
  assumes "\<not> truthy (sendRootHash r)"
      and "await (getL2Network reg w (SoP (IsProvider l2p))) = Inr (ObjL2 n)"
      and "rollup_latestConfirmed w (l1Provider r) (rollup (ethBridge n)) = Inr node"
      and "getBlockNumber w (l1Provider r) = Inr cur"
      and "getLogs w (l1Provider r)
             \<lparr>address = rollup (ethBridge n), fromBlock = max (cur - 172800) 0,
              toBlock = BlockName ''latest'', nodeNum_topic = node\<rparr> = Inr [lg]"
      and "eth_getBlockByHash w l2p (hexString (blockHash lg)) = Inr (Some blk)"
      and "blk_sendRoot blk \<noteq> hexString (sendRoot lg)"
  shows "status reg w l2p r = (Inl (JsError ''send roots''), r)
         \<and> getOutboxProof reg w l2p r = (Inl (JsError ''send roots''), r)"
  using updateSendRoot_mismatch [OF assms]
  by (simp add: status_of_failed_update getOutboxProof_of_failed_update)

theorem send_root_mismatch_is_fatal_witness:
  "status initial_registry mismatch_world 20 withdrawal_reader
     = (Inl (JsError ''send roots''), withdrawal_reader)
   \<and> getOutboxProof initial_registry mismatch_world 20 withdrawal_reader
     = (Inl (JsError ''send roots''), withdrawal_reader)"
  by (rule send_root_mismatch_is_fatal [OF withdrawal_reader_simps(7) mismatch_world_facts])

section \<open>Repeated status calls\<close>

text \<open>
  Claim C3, as stated, fails in its second half: \<^verbatim>\<open>status()\<close> asks the outbox on every
  call, so a call that finds position 5 spent returns \<^verbatim>\<open>EXECUTED\<close> and a later call that
  finds it not spent (the L1 transaction was reorganised away, or another endpoint
  answers) returns \<^verbatim>\<open>CONFIRMED\<close>.
\<close>

theorem executed_then_confirmed:
  "map fst (status_calls [(initial_registry, executed_world, 20),
                          (initial_registry, confirmed_world, 20)] withdrawal_reader)
     = [Inr EXECUTED, Inr CONFIRMED]"
  by (simp add: status_in_executed_world
        status_memoized [OF withdrawal_reader_cached_simps(1)] bindE_def confirmed_world_def)

text \<open>
  Claim C3, amended. Over any sequence of \<^verbatim>\<open>status()\<close> calls on one message instance, once
  a call has returned \<^verbatim>\<open>CONFIRMED\<close> or \<^verbatim>\<open>EXECUTED\<close> the confirming root is cached and no later
  call changes the instance: every later call answers from the outbox alone, \<^verbatim>\<open>EXECUTED\<close>
  when it reports the position spent and \<^verbatim>\<open>CONFIRMED\<close> when it does not. So no later call
  returns \<^verbatim>\<open>UNCONFIRMED\<close>, and a later call returns \<^verbatim>\<open>CONFIRMED\<close> only if the outbox then
  reports the position as not spent.
\<close>

theorem status_stays_confirmed:
  assumes "i < j" and "j < length calls"
      and "fst (status_calls calls r ! i) = Inr CONFIRMED
           \<or> fst (status_calls calls r ! i) = Inr EXECUTED"
  shows "fst (status_calls calls r ! j) \<noteq> Inr UNCONFIRMED
         \<and> truthy (sendRootHash (snd (status_calls calls r ! i)))
         \<and> snd (status_calls calls r ! j) = snd (status_calls calls r ! i)
         \<and> fst (status_calls calls r ! j) =
             bindE (outbox_spent (fst (snd (calls ! j))) (l1Provider r) (outboxAddress r)
                      (position (event r)))
               (\<lambda>spent. Inr (if spent then EXECUTED else CONFIRMED))
         \<and> (fst (status_calls calls r ! j) = Inr CONFIRMED \<longrightarrow>
               outbox_spent (fst (snd (calls ! j))) (l1Provider r) (outboxAddress r)
                 (position (event r)) = Inr False)"
  using status_calls_later [OF assms]
  by (auto simp: bindE_def split: sum.splits if_splits)

theorem status_stays_confirmed_witness:
  "fst (status_calls [(initial_registry, confirmed_world, 20),
                      (initial_registry, unconfirmed_world, 20),
                      (initial_registry, executed_world, 20)] withdrawal_reader ! 1)
     \<noteq> Inr UNCONFIRMED
   \<and> fst (status_calls [(initial_registry, confirmed_world, 20),
                      (initial_registry, unconfirmed_world, 20),
                      (initial_registry, executed_world, 20)] withdrawal_reader ! 2)
     = Inr EXECUTED
   \<and> fst (status initial_registry unconfirmed_world 20 withdrawal_reader) = Inr UNCONFIRMED"
proof -
  let ?calls = "[(initial_registry, confirmed_world, 20::Provider),
                 (initial_registry, unconfirmed_world, 20),
                 (initial_registry, executed_world, 20)]"
  have first: "fst (status_calls ?calls withdrawal_reader ! 0) = Inr CONFIRMED
               \<or> fst (status_calls ?calls withdrawal_reader ! 0) = Inr EXECUTED"
    by (simp add: status_in_confirmed_world)
  have len: "1 < length ?calls" "2 < length ?calls"
    by simp_all
  have a: "fst (status_calls ?calls withdrawal_reader ! 1) \<noteq> Inr UNCONFIRMED"
    by (rule status_stays_confirmed [OF zero_less_one len(1) first, THEN conjunct1])
  have "fst (status_calls ?calls withdrawal_reader ! 2) =
          bindE (outbox_spent (fst (snd (?calls ! 2))) (l1Provider withdrawal_reader)
                   (outboxAddress withdrawal_reader) (position (event withdrawal_reader)))
            (\<lambda>spent. Inr (if spent then EXECUTED else CONFIRMED))"
    by (rule status_stays_confirmed [OF zero_less_numeral len(2) first,
                 THEN conjunct2, THEN conjunct2, THEN conjunct2, THEN conjunct1])
  also have "\<dots> = Inr EXECUTED"
    by (simp add: executed_world_def withdrawal_reader_simps bindE_def)
  finally have b: "fst (status_calls ?calls withdrawal_reader ! 2) = Inr EXECUTED" .
  have c: "fst (status initial_registry unconfirmed_world 20 withdrawal_reader)
             = Inr UNCONFIRMED"
    by (simp add: status_in_unconfirmed_world)
  from a b c show ?thesis by simp
qed

section \<open>The inclusion proof\<close>

text \<open>
  Claim C6. \<^verbatim>\<open>getOutboxProof\<close> fails when the root cannot be resolved, and fails with
  \<^verbatim>\<open>Node not confirmed, cannot get proof.\<close> when the message is \<^verbatim>\<open>UNCONFIRMED\<close>. Once
  \<^verbatim>\<open>status()\<close> has returned \<^verbatim>\<open>CONFIRMED\<close> or \<^verbatim>\<open>EXECUTED\<close>, a tree size above the position is
  cached, that failure cannot happen any more, at any later time, and the outcome is the
  outcome of the proof call on the node interface: the list of sibling hashes when the call
  answers.
\<close>

theorem getOutboxProof_needs_confirmed_root:
  assumes "cache_inv r"
  shows "(\<forall>e. updateSendRoot reg w (l1Provider r) l2p r = Inl e
            \<longrightarrow> getOutboxProof reg w l2p r = (Inl e, r))
         \<and> (fst (status reg w l2p r) = Inr UNCONFIRMED
            \<longrightarrow> getOutboxProof reg w l2p r =
                  (Inl (ArbTsError ''Node not confirmed, cannot get proof.''),
                   snd (status reg w l2p r)))
         \<and> (fst (status reg w l2p r) = Inr CONFIRMED \<or> fst (status reg w l2p r) = Inr EXECUTED
            \<longrightarrow> (\<exists>size_cached.
                   sendRootSize (snd (status reg w l2p r)) = Some size_cached
                   \<and> position (event r) < size_cached
                   \<and> getOutboxProof reg w l2p r =
                       (bindE (callConstructOutboxProof w l2p size_cached (position (event r)))
                          (\<lambda>params. Inr (proof_hashes params)),
                        snd (status reg w l2p r))
                   \<and> (\<forall>reg' w' l2p'.
                         getOutboxProof reg' w' l2p' (snd (status reg w l2p r)) =
                           (bindE (callConstructOutboxProof (w' :: 'w world_scheme) l2p' size_cached
                                     (position (event r)))
                              (\<lambda>params. Inr (proof_hashes params)),
                            snd (status reg w l2p r)))
                   \<and> (\<forall>params. size_cached \<le> 9007199254740991
                         \<longrightarrow> position (event r) \<le> 9007199254740991
                         \<longrightarrow> constructOutboxProof w l2p size_cached (position (event r))
                               = Inr params
                         \<longrightarrow> fst (getOutboxProof reg w l2p r) = Inr (proof_hashes params))))"
proof (intro conjI allI impI)
  fix e
  assume "updateSendRoot reg w (l1Provider r) l2p r = Inl e"
  then show "getOutboxProof reg w l2p r = (Inl e, r)"
    by (rule getOutboxProof_of_failed_update)
next
  assume u: "fst (status reg w l2p r) = Inr UNCONFIRMED"
  let ?r' = "snd (status reg w l2p r)"
  from status_gives_update [OF u]
  have upd: "updateSendRoot reg w (l1Provider r) l2p r = Inr ?r'"
    and "\<not> truthy (sendRootHash ?r')"
    by auto
  with cache_inv_truthy(2) [OF cache_inv_updateSendRoot [OF assms upd]]
  have "sendRootSize ?r' = None" by simp
  with upd show "getOutboxProof reg w l2p r =
                   (Inl (ArbTsError ''Node not confirmed, cannot get proof.''), ?r')"
    by (simp add: getOutboxProof_def)
next
  assume c: "fst (status reg w l2p r) = Inr CONFIRMED \<or> fst (status reg w l2p r) = Inr EXECUTED"
  let ?r' = "snd (status reg w l2p r)"
  from c obtain st where st: "fst (status reg w l2p r) = Inr st" "st \<noteq> UNCONFIRMED"
    by auto
  from status_gives_update [OF st(1)] st(2)
  have upd: "updateSendRoot reg w (l1Provider r) l2p r = Inr ?r'"
    and memo: "truthy (sendRootHash ?r')"
    by auto
  from cache_inv_truthy(1) [OF cache_inv_updateSendRoot [OF assms upd]] memo
  obtain n where n: "sendRootSize ?r' = Some n" "position (event ?r') < n"
    by auto
  note same = updateSendRoot_keeps_event [OF upd]
  have here: "getOutboxProof reg w l2p r =
                (bindE (callConstructOutboxProof w l2p n (position (event r)))
                   (\<lambda>params. Inr (proof_hashes params)), ?r')"
    using upd n(1) same(1) by (simp add: getOutboxProof_def)
  have later: "getOutboxProof reg' w' l2p' ?r' =
                 (bindE (callConstructOutboxProof w' l2p' n (position (event r)))
                    (\<lambda>params. Inr (proof_hashes params)), ?r')"
    for reg' and w' :: "'w world_scheme" and l2p'
    using getOutboxProof_memoized [OF memo n(1)] same(1) by simp
  have answered: "fst (getOutboxProof reg w l2p r) = Inr (proof_hashes params)"
    if "n \<le> 9007199254740991" "position (event r) \<le> 9007199254740991"
       "constructOutboxProof w l2p n (position (event r)) = Inr params" for params
    using that by (simp add: here callConstructOutboxProof_def toNumber_def bindE_def)
  from n same(1) here later answered
  show "\<exists>size_cached.
          sendRootSize ?r' = Some size_cached
          \<and> position (event r) < size_cached
          \<and> getOutboxProof reg w l2p r =
              (bindE (callConstructOutboxProof w l2p size_cached (position (event r)))
                 (\<lambda>params. Inr (proof_hashes params)), ?r')
          \<and> (\<forall>reg' w' l2p'.
                getOutboxProof reg' w' l2p' ?r' =
                  (bindE (callConstructOutboxProof (w' :: 'w world_scheme) l2p' size_cached
                            (position (event r)))
                     (\<lambda>params. Inr (proof_hashes params)), ?r'))
          \<and> (\<forall>params. size_cached \<le> 9007199254740991
                \<longrightarrow> position (event r) \<le> 9007199254740991
                \<longrightarrow> constructOutboxProof w l2p size_cached (position (event r)) = Inr params
                \<longrightarrow> fst (getOutboxProof reg w l2p r) = Inr (proof_hashes params))"
    by (intro exI [of _ n]) simp
qed

theorem getOutboxProof_needs_confirmed_root_witness:
  "fst (getOutboxProof initial_registry confirmed_world 20 withdrawal_reader)
     = Inr [''0xaa'', ''0xbb'', ''0xcc'']
   \<and> getOutboxProof initial_registry unconfirmed_world 20 withdrawal_reader
     = (Inl (ArbTsError ''Node not confirmed, cannot get proof.''), withdrawal_reader)"
proof -
  note t = getOutboxProof_needs_confirmed_root [OF cache_inv_withdrawal_reader]
  have u: "getOutboxProof initial_registry unconfirmed_world 20 withdrawal_reader
             = (Inl (ArbTsError ''Node not confirmed, cannot get proof.''), withdrawal_reader)"
    using t [of initial_registry unconfirmed_world 20]
    by (simp add: status_in_unconfirmed_world)
  have st: "fst (status initial_registry confirmed_world 20 withdrawal_reader) = Inr CONFIRMED
            \<or> fst (status initial_registry confirmed_world 20 withdrawal_reader) = Inr EXECUTED"
    by (simp add: status_in_confirmed_world)
  from t [of initial_registry confirmed_world 20, THEN conjunct2, THEN conjunct2,
          rule_format, OF st]
  obtain sz where sz:
    "sendRootSize (snd (status initial_registry confirmed_world 20 withdrawal_reader)) = Some sz"
    and answered:
    "\<And>params. sz \<le> 9007199254740991
        \<Longrightarrow> position (event withdrawal_reader) \<le> 9007199254740991
        \<Longrightarrow> constructOutboxProof confirmed_world 20 sz (position (event withdrawal_reader))
              = Inr params
        \<Longrightarrow> fst (getOutboxProof initial_registry confirmed_world 20 withdrawal_reader)
              = Inr (proof_hashes params)"
    by blast
  from sz have ten: "sz = 10"
    by (simp add: status_in_confirmed_world withdrawal_reader_cached_def)
  have call: "constructOutboxProof confirmed_world 20 sz (position (event withdrawal_reader))
                = Inr \<lparr>sendAtLeaf = ''0x1eaf'', rootAtSize = ''0x5e4d'',
                       proof_hashes = [''0xaa'', ''0xbb'', ''0xcc'']\<rparr>"
    by (simp add: confirmed_world_def)
  have c: "fst (getOutboxProof initial_registry confirmed_world 20 withdrawal_reader)
             = Inr [''0xaa'', ''0xbb'', ''0xcc'']"
    using answered [OF _ _ call] by (simp add: ten withdrawal_reader_simps)
  from c u show ?thesis by simp
qed

section \<open>Executing a message\<close>

text \<open>
  Claim C5, as stated, fails in its second half: \<^verbatim>\<open>execute()\<close> has one throw for every
  status other than \<^verbatim>\<open>CONFIRMED\<close>, an \<^verbatim>\<open>ArbTsError\<close> built from one template. On a message
  the outbox has already executed it raises that error with the number 3 filled in, the
  error it raises on an unconfirmed message with the number 1: there is no condition of
  its own for an executed message.
\<close>

theorem executed_message_gets_the_generic_error:
  "fst (execute initial_registry executed_world 20 withdrawal_writer)
     = Inl (ArbTsError (''Cannot execute message. Status is: '' @ ''3'' @ '' but must be 2.''))
   \<and> fst (execute initial_registry unconfirmed_world 20 withdrawal_writer)
     = Inl (ArbTsError (''Cannot execute message. Status is: '' @ ''1'' @ '' but must be 2.''))"
  by (simp add: execute_unfold writer_status string_of_nat.simps)

text \<open>
  Claim C5, amended. \<^verbatim>\<open>execute()\<close> returns a transaction only when \<^verbatim>\<open>status()\<close> has
  returned \<^verbatim>\<open>CONFIRMED\<close>. A failure of \<^verbatim>\<open>status()\<close> is passed on. Every other status,
  \<^verbatim>\<open>EXECUTED\<close> included, is the same \<^verbatim>\<open>ArbTsError\<close>,
  \<^verbatim>\<open>Cannot execute message. Status is: n but must be 2.\<close>, where \<open>n\<close> is the number of the
  status found and 2 the number of the status required; the throw leaves the message
  instance as \<^verbatim>\<open>status()\<close> left it.
\<close>

theorem execute_requires_confirmed:
  "(\<forall>tx. fst (execute reg w l2p r) = Inr tx \<longrightarrow> fst (status reg w l2p r) = Inr CONFIRMED)
   \<and> (\<forall>e. fst (status reg w l2p r) = Inl e \<longrightarrow> fst (execute reg w l2p r) = Inl e)
   \<and> (\<forall>st. fst (status reg w l2p r) = Inr st \<longrightarrow> st \<noteq> CONFIRMED \<longrightarrow>
         execute reg w l2p r =
           (Inl (ArbTsError (''Cannot execute message. Status is: ''
                   @ string_of_nat (status_number st) @ '' but must be 2.'')),
            snd (status reg w l2p r)))
   \<and> (fst (status reg w l2p r) = Inr EXECUTED \<longrightarrow>
         fst (execute reg w l2p r)
           = Inl (ArbTsError ''Cannot execute message. Status is: 3 but must be 2.''))
   \<and> (fst (status reg w l2p r) = Inr UNCONFIRMED \<longrightarrow>
         fst (execute reg w l2p r)
           = Inl (ArbTsError ''Cannot execute message. Status is: 1 but must be 2.''))"
proof (intro conjI allI impI)
  fix tx
  assume "fst (execute reg w l2p r) = Inr tx"
  then show "fst (status reg w l2p r) = Inr CONFIRMED"
    by (auto simp: execute_unfold split: sum.splits if_splits)
next
  fix e
  assume "fst (status reg w l2p r) = Inl e"
  then show "fst (execute reg w l2p r) = Inl e"
    by (simp add: execute_unfold)
next
  fix st
  assume "fst (status reg w l2p r) = Inr st" "st \<noteq> CONFIRMED"
  then show "execute reg w l2p r =
           (Inl (ArbTsError (''Cannot execute message. Status is: ''
                   @ string_of_nat (status_number st) @ '' but must be 2.'')),
            snd (status reg w l2p r))"
    by (cases st) (simp_all add: execute_unfold string_of_nat.simps)
next
  assume "fst (status reg w l2p r) = Inr EXECUTED"
  then show "fst (execute reg w l2p r)
           = Inl (ArbTsError ''Cannot execute message. Status is: 3 but must be 2.'')"
    by (simp add: execute_unfold string_of_nat.simps)
next
  assume "fst (status reg w l2p r) = Inr UNCONFIRMED"
  then show "fst (execute reg w l2p r)
           = Inl (ArbTsError ''Cannot execute message. Status is: 1 but must be 2.'')"
    by (simp add: execute_unfold string_of_nat.simps)
qed

theorem execute_requires_confirmed_witness:
  "fst (execute initial_registry executed_world 20 withdrawal_writer)
     = Inl (ArbTsError ''Cannot execute message. Status is: 3 but must be 2.'')
   \<and> execute initial_registry unconfirmed_world 20 withdrawal_writer
     = (Inl (ArbTsError ''Cannot execute message. Status is: 1 but must be 2.''),
        withdrawal_writer)
   \<and> fst (execute initial_registry confirmed_world 20 withdrawal_writer) = Inr ''0x7e57''
   \<and> fst (status initial_registry confirmed_world 20 withdrawal_writer) = Inr CONFIRMED"
proof -
  have e: "fst (status initial_registry executed_world 20 withdrawal_writer) = Inr EXECUTED"
    by (simp add: writer_status)
  have u: "fst (status initial_registry unconfirmed_world 20 withdrawal_writer)
             = Inr UNCONFIRMED"
    by (simp add: writer_status)
  note t = execute_requires_confirmed
  have a: "fst (execute initial_registry executed_world 20 withdrawal_writer)
             = Inl (ArbTsError ''Cannot execute message. Status is: 3 but must be 2.'')"
    by (rule t [of initial_registry executed_world 20 withdrawal_writer,
                THEN conjunct2, THEN conjunct2, THEN conjunct2, THEN conjunct1, rule_format,
                OF e])
  have "execute initial_registry unconfirmed_world 20 withdrawal_writer
     = (Inl (ArbTsError (''Cannot execute message. Status is: ''
                   @ string_of_nat (status_number UNCONFIRMED) @ '' but must be 2.'')),
        snd (status initial_registry unconfirmed_world 20 withdrawal_writer))"
    by (rule t [of initial_registry unconfirmed_world 20 withdrawal_writer,
                THEN conjunct2, THEN conjunct2, THEN conjunct1, rule_format, OF u]) simp
  then have b: "execute initial_registry unconfirmed_world 20 withdrawal_writer
     = (Inl (ArbTsError ''Cannot execute message. Status is: 1 but must be 2.''),
        withdrawal_writer)"
    by (simp add: writer_status string_of_nat.simps)
  have c: "fst (status initial_registry confirmed_world 20 withdrawal_writer) = Inr CONFIRMED"
    by (rule t [of initial_registry confirmed_world 20 withdrawal_writer,
                THEN conjunct1, rule_format, OF execute_in_confirmed_world])
  from a b c execute_in_confirmed_world show ?thesis by simp
qed

section \<open>Fee estimation: the increase policy\<close>

lemma tdiv_100:
  "tdiv a 100 = (if 0 \<le> a then a div 100 else - ((- a) div 100))"
  by (auto simp: tdiv_def sgn_if)

lemma tdiv_100_mono:
  assumes "a \<le> b"
  shows "tdiv a 100 \<le> tdiv b 100"
proof -
  consider "0 \<le> a" | "a < 0" "0 \<le> b" | "b < 0" by linarith
  then show ?thesis
  proof cases
    case 1
    with assms have "a div 100 \<le> b div 100" by (intro zdiv_mono1) simp_all
    with 1 assms show ?thesis by (simp add: tdiv_100)
  next
    case 2
    then have "0 \<le> (- a) div 100" "0 \<le> b div 100" by simp_all
    with 2 show ?thesis by (simp add: tdiv_100)
  next
    case 3
    with assms have "(- b) div 100 \<le> (- a) div 100" by (intro zdiv_mono1) simp_all
    with 3 assms show ?thesis by (simp add: tdiv_100)
  qed
qed

lemma percentIncrease_mono:
  assumes "0 \<le> b" and "p \<le> q"
  shows "percentIncrease b p \<le> percentIncrease b q"
proof -
  from assms have "b * p \<le> b * q" by (rule mult_left_mono [rotated])
  then show ?thesis by (simp add: percentIncrease_def tdiv_100_mono)
qed

lemma percentIncrease_strict:
  assumes "100 \<le> b" and "0 \<le> p" and "p < q"
  shows "percentIncrease b p < percentIncrease b q"
proof -
  from assms have nonneg: "0 \<le> b * p" "0 \<le> b * q" by simp_all
  from assms have "p + 1 \<le> q" by simp
  with assms(1) have "b * (p + 1) \<le> b * q" by (intro mult_left_mono) simp_all
  with assms(1) have "b * p + 100 \<le> b * q" by (simp add: algebra_simps)
  then have "(b * p + 100) div 100 \<le> (b * q) div 100" by (intro zdiv_mono1) simp_all
  then have "(b * p) div 100 + 1 \<le> (b * q) div 100" by simp
  with nonneg show ?thesis by (simp add: percentIncrease_def tdiv_100)
qed

text \<open>
  Claim C9, as stated, fails: the quotient is truncated, so on a small base a larger
  percentage adds nothing. A base of 1 increased by 50 percent is 1, as at 0 percent.
\<close>

theorem percentIncrease_not_strict:
  "percentIncrease 1 50 = 1 \<and> percentIncrease 1 0 = 1
   \<and> increasePolicy 1 50 None = increasePolicy 1 0 None"
  by (simp add: percentIncrease_def increasePolicy_def tdiv_def)

text \<open>
  Claim C9, amended. The increase policy computes \<open>base + base * percent / 100\<close> over the
  integers with the quotient truncated toward zero, and returns the base at 0 percent. For
  a fixed base that is not negative, a larger percentage never gives a smaller value, with
  or without a minimum; without a minimum the value is strictly larger as soon as the base
  is at least 100 and the percentages are not negative. With a minimum supplied the result
  is at least the minimum.
\<close>

theorem increasePolicy_monotone:
  "percentIncrease b p = b + tdiv (b * p) 100
   \<and> (0 \<le> b \<longrightarrow> 0 \<le> p \<longrightarrow> tdiv (b * p) 100 = (b * p) div 100)
   \<and> (b * p < 0 \<longrightarrow> tdiv (b * p) 100 = - ((- (b * p)) div 100))
   \<and> increasePolicy b 0 None = b
   \<and> (0 \<le> b \<longrightarrow> p \<le> q \<longrightarrow> increasePolicy b p m \<le> increasePolicy b q m)
   \<and> (100 \<le> b \<longrightarrow> 0 \<le> p \<longrightarrow> p < q \<longrightarrow> increasePolicy b p None < increasePolicy b q None)
   \<and> (\<forall>minimum. m = Some minimum \<longrightarrow> minimum \<le> increasePolicy b p m)"
proof (intro conjI allI impI)
  show "percentIncrease b p = b + tdiv (b * p) 100"
    by (simp add: percentIncrease_def)
  show "tdiv (b * p) 100 = (b * p) div 100" if "0 \<le> b" "0 \<le> p"
    using that by (simp add: tdiv_100)
  show "tdiv (b * p) 100 = - ((- (b * p)) div 100)" if "b * p < 0"
    using that by (simp add: tdiv_100)
  show "increasePolicy b 0 None = b"
    by (simp add: increasePolicy_def percentIncrease_def tdiv_def)
  show "increasePolicy b p m \<le> increasePolicy b q m" if "0 \<le> b" "p \<le> q"
    using percentIncrease_mono [OF that]
    by (cases m) (auto simp: increasePolicy_def)
  show "increasePolicy b p None < increasePolicy b q None" if "100 \<le> b" "0 \<le> p" "p < q"
    using percentIncrease_strict [OF that] by (simp add: increasePolicy_def)
  show "minimum \<le> increasePolicy b p m" if "m = Some minimum" for minimum
    using that by (simp add: increasePolicy_def)
qed

theorem increasePolicy_monotone_witness:
  "increasePolicy 130000 0 None = 130000
   \<and> increasePolicy 130000 30 None = 169000
   \<and> increasePolicy 130000 0 None < increasePolicy 130000 30 None
   \<and> increasePolicy 40 1 (Some 50) \<le> increasePolicy 40 2 (Some 50)
   \<and> (50::int) \<le> increasePolicy 40 2 (Some 50)
   \<and> tdiv ((- 7) * 50) 100 = - 3"
proof -
  note t = increasePolicy_monotone
  have a: "increasePolicy 130000 0 None < increasePolicy 130000 30 None"
    using t [of 130000 0 30 None] by simp
  have b: "increasePolicy 40 1 (Some 50) \<le> increasePolicy 40 2 (Some 50)"
    using t [of 40 1 2 "Some 50"] by simp
  have c: "(50::int) \<le> increasePolicy 40 2 (Some 50)"
    using t [of 40 2 2 "Some 50"] by simp
  have d: "tdiv ((- 7) * 50) 100 = - 3"
    using t [of "- 7" 50 50 None] by simp
  have e: "increasePolicy 130000 0 None = 130000" "increasePolicy 130000 30 None = 169000"
    by (simp_all add: increasePolicy_def percentIncrease_def tdiv_def)
  from a b c d e show ?thesis by simp
qed

end
